theory Spec2Isabelle
  imports Main "HOL-Library.Word" "HOL-Library.Sublist"
begin

section \<open>TCP keepalive offload: the application code of tcp\_keepalive\_offload.c\<close>

text \<open>
  The file holds four functions: \<open>find_my_tko_descriptor\<close>, \<open>network_idle_task\<close>,
  \<open>tcp_socket_connection_start\<close> and \<open>wifi_connect\<close>. They work on three globals
  (\<open>connect_param\<close>, \<open>ip_addr\<close>, \<open>global_socket\<close>) and call into the socket library, the
  Wi-Fi connection manager, the offload manager and the RTOS. The embedding passes the
  globals as an explicit state, takes the answers of the libraries from an environment,
  and keeps a log of every library call and every diagnostic line, in program order.
\<close>

subsection \<open>Result codes\<close>

text \<open>
  Modelled from the spec: \<open>cy_result.h\<close>, which declares \<open>cy_rslt_t\<close> and the two codes
  the file names, is not among the sources. The specification tells the success status
  from the typed "configuration missing" error. \<open>cy_rslt_t\<close> is a 32-bit unsigned word;
  the codes get the values of the header, 0 and 2. Only that they differ is ever used.
\<close>

type_synonym cy_rslt_t = "32 word"

definition CY_RSLT_SUCCESS :: cy_rslt_t where
  "CY_RSLT_SUCCESS = 0"

definition CY_RSLT_TYPE_ERROR :: cy_rslt_t where
  "CY_RSLT_TYPE_ERROR = 2"

subsection \<open>C strings\<close>

text \<open>
  A \<open>const char *\<close> is the list of the bytes it points to; the terminating zero byte
  follows the list. A zero byte inside the list ends the string there, as it does in C:
  \<open>cstr\<close> is the text a C function sees. \<open>strlen\<close>, \<open>strncmp\<close> and \<open>strcmp\<close> follow
  ISO C: the comparison functions return the difference of the first two bytes that
  differ, read as \<open>unsigned char\<close>.
\<close>

definition NUL :: char where
  "NUL = CHR 0x00"

definition peek :: "string \<Rightarrow> char" where
  "peek s = (case s of [] \<Rightarrow> NUL | c # _ \<Rightarrow> c)"

definition cstr :: "string \<Rightarrow> string" where
  "cstr s = takeWhile (\<lambda>c. c \<noteq> NUL) s"

fun strlen :: "string \<Rightarrow> nat" where
  "strlen [] = 0"
| "strlen (c # s) = (if c = NUL then 0 else Suc (strlen s))"

fun strncmp :: "string \<Rightarrow> string \<Rightarrow> nat \<Rightarrow> int" where
  "strncmp s1 s2 0 = 0"
| "strncmp s1 s2 (Suc n) =
     (if peek s1 \<noteq> peek s2 then int (of_char (peek s1)) - int (of_char (peek s2))
      else if peek s1 = NUL then 0
      else strncmp (tl s1) (tl s2) n)"

fun strcmp :: "string \<Rightarrow> string \<Rightarrow> int" where
  "strcmp [] s2 =
     (if peek s2 = NUL then 0 else int (of_char NUL) - int (of_char (peek s2)))"
| "strcmp (c1 # s1) s2 =
     (if c1 \<noteq> peek s2 then int (of_char c1) - int (of_char (peek s2))
      else if c1 = NUL then 0
      else strcmp s1 (tl s2))"

subsection \<open>The offload configuration\<close>

text \<open>
  The types come from the Low Power Assistant headers. Of \<open>cy_tko_ol_cfg_t\<close> the file
  reads the array \<open>ports[MAX_TKO]\<close> only, of \<open>ol_desc_t\<close> the members \<open>name\<close> and
  \<open>cfg\<close>. A pointer member is an option: \<open>None\<close> is \<open>NULL\<close>.
\<close>

record cy_tko_ol_connect_t =
  local_port :: "16 word"
  remote_port :: "16 word"
  remote_ip :: string

record cy_tko_ol_cfg_t =
  ports :: "cy_tko_ol_connect_t list"

record ol_desc_t =
  name :: "string option"
  cfg :: "cy_tko_ol_cfg_t option"

text \<open>
  A \<open>const ol_desc_t *\<close> walks an array. \<open>None\<close> is the null pointer; \<open>Some ds\<close> points
  into an array, \<open>ds\<close> being the elements from the one pointed to up to the end of the
  array. So \<open>p++\<close> is \<open>tl\<close>, \<open>p->name\<close> reads \<open>hd\<close>, and \<open>Some []\<close> points one past the
  end, where a read is outside the array.
\<close>

type_synonym ol_desc_ptr = "ol_desc_t list option"

subsection \<open>Globals, the log and the environment\<close>

type_synonym socket_ptr = "nat option"
type_synonym netif_ptr = "nat option"

datatype cy_wcm_ip_version_t = CY_WCM_IP_VER_V4 | CY_WCM_IP_VER_V6

record cy_wcm_ip_address_t =
  version :: cy_wcm_ip_version_t
  ip :: "32 word list"

record cy_wcm_connect_params_t =
  SSID :: string
  password :: string
  security :: nat

text \<open>The diagnostic lines of the file, one constructor for each format string.\<close>

datatype diag =
    Unable_to_find string
  | Socket_initialization_failed cy_rslt_t
  | Offload_configuration_not_found
  | Taking_configuration
  | Socket_unable_to_connect nat cy_rslt_t
  | Socket_created_connection nat
  | Socket_skipped nat
  | Offload_descriptor_not_found
  | Wifi_initialization_successful
  | Join_to_AP string
  | Successfully_joined string
  | Assigned_IP_address "32 word list"
  | Failed_to_join_retrying

datatype event =
    ERR_INFO diag
  | APP_INFO diag
  | Call_get_default_ol_list
  | Call_cy_socket_init cy_rslt_t
  | Call_cy_tcp_create_socket_connection nat cy_rslt_t
  | Call_cy_wcm_init cy_rslt_t
  | Call_cy_wcm_connect_ap cy_rslt_t
  | Call_wait_net_suspend netif_ptr "32 word" "32 word" "32 word"
  | Call_vTaskDelay "32 word"

record app_state =
  connect_param :: cy_wcm_connect_params_t
  ip_addr :: cy_wcm_ip_address_t
  global_socket :: "socket_ptr list"
  log :: "event list"

definition emit :: "event \<Rightarrow> app_state \<Rightarrow> app_state" where
  "emit e st = st\<lparr>log := log st @ [e]\<rparr>"

text \<open>
  The environment holds the macros of \<open>app_config.h\<close> and of the library headers, and the
  answers of the library functions during one run. \<open>cy_tcp_create_socket_connection\<close>
  receives the address of \<open>global_socket[index]\<close> as an out-parameter: the
  environment's function takes the index in its place and returns the status with the
  content of the slot after the call. \<open>cy_wcm_connect_ap\<close> is called with the same
  arguments every time and has \<open>ip_addr\<close> as its out-parameter: its answer to the call
  number \<open>k\<close> (from 0) is \<open>cy_wcm_connect_ap env k\<close>, the status with the content of
  \<open>ip_addr\<close> after the call.
\<close>

record env =
  MAX_TKO :: nat
  NULL_IP_ADDRESS :: string
  ENABLE_HOST_TCP_KEEPALIVE :: int
  MAX_WIFI_RETRY_COUNT :: "32 word"
  WIFI_SSID :: string
  WIFI_PASSWORD :: string
  WIFI_SECURITY_TYPE :: nat
  NETWORK_INACTIVE_INTERVAL_MS :: "32 word"
  NETWORK_INACTIVE_WINDOW_MS :: "32 word"
  NETWORK_SUSPEND_DELAY_MS :: "32 word"
  portMAX_DELAY :: "32 word"
  pdMS_TO_TICKS :: "32 word \<Rightarrow> 32 word"
  get_default_ol_list :: ol_desc_ptr
  cy_lwip_get_interface :: netif_ptr
  cy_socket_init :: cy_rslt_t
  cy_tcp_create_socket_connection ::
    "netif_ptr \<Rightarrow> nat \<Rightarrow> string \<Rightarrow> 16 word \<Rightarrow> 16 word \<Rightarrow> cy_tko_ol_cfg_t \<Rightarrow> int
       \<Rightarrow> cy_rslt_t \<times> socket_ptr"
  cy_wcm_init :: cy_rslt_t
  cy_wcm_connect_ap ::
    "nat \<Rightarrow> cy_wcm_connect_params_t \<Rightarrow> cy_rslt_t \<times> cy_wcm_ip_address_t"

text \<open>
  A call returns a value, or stops the program at a failed assertion, or reads outside
  an array (undefined behaviour in C, a fault here).
\<close>

datatype 'a outcome = Returned 'a | Halted cy_rslt_t | Fault

subsection \<open>find\_my\_tko\_descriptor\<close>

definition TCP_KEEPALIVE_OFFLOAD :: string where
  "TCP_KEEPALIVE_OFFLOAD = ''TKO''"

text \<open>
  The \<open>while\<close> loop of lines 105 to 109. It leaves at a null \<open>name\<close> or at a name whose
  first \<open>strlen(name)\<close> bytes compare equal to the search name.
\<close>

fun scan_offloads :: "ol_desc_ptr \<Rightarrow> string \<Rightarrow> ol_desc_ptr outcome" where
  "scan_offloads None nm = Returned None"
| "scan_offloads (Some []) nm = Fault"
| "scan_offloads (Some (d # ds)) nm =
     (case name d of
        None \<Rightarrow> Returned (Some (d # ds))
      | Some n \<Rightarrow>
          if 0 \<noteq> strncmp n nm (strlen nm) then scan_offloads (Some ds) nm
          else Returned (Some (d # ds)))"

text \<open>
  After the loop the pointer is null, or points at the entry whose \<open>name\<close> is read once
  more (line 111). A null pointer or a null name gives the diagnostic and \<open>NULL\<close>.
\<close>

definition find_my_tko_descriptor ::
  "env \<Rightarrow> string \<Rightarrow> app_state \<Rightarrow> ol_desc_ptr outcome \<times> app_state" where
  "find_my_tko_descriptor e nm st =
     (let st1 = emit Call_get_default_ol_list st in
      case scan_offloads (get_default_ol_list e) nm of
        Returned None \<Rightarrow> (Returned None, emit (ERR_INFO (Unable_to_find nm)) st1)
      | Returned (Some []) \<Rightarrow> (Fault, st1)
      | Returned (Some (d # ds)) \<Rightarrow>
          (if name d = None
           then (Returned None, emit (ERR_INFO (Unable_to_find nm)) st1)
           else (Returned (Some (d # ds)), st1))
      | Halted r \<Rightarrow> (Halted r, st1)
      | Fault \<Rightarrow> (Fault, st1))"

subsection \<open>network\_idle\_task\<close>

text \<open>
  The task runs \<open>while (true)\<close> and may run forever, so its model takes fuel: the number
  of passes through the loop body it is allowed. With the fuel used up the task is
  \<open>Still_running\<close>, in the state it has reached; \<open>Task_returned\<close> would be a return from
  the function. One pass is the suspend call, then the delay.
\<close>

datatype task_result = Still_running app_state | Task_returned app_state

primrec idle_loop :: "env \<Rightarrow> netif_ptr \<Rightarrow> nat \<Rightarrow> app_state \<Rightarrow> task_result" where
  "idle_loop e wifi 0 st = Still_running st"
| "idle_loop e wifi (Suc fuel) st =
     (if True then
        (let st1 = emit (Call_wait_net_suspend wifi (portMAX_DELAY e)
                           (NETWORK_INACTIVE_INTERVAL_MS e) (NETWORK_INACTIVE_WINDOW_MS e)) st;
             st2 = emit (Call_vTaskDelay (pdMS_TO_TICKS e (NETWORK_SUSPEND_DELAY_MS e))) st1
         in idle_loop e wifi fuel st2)
      else Task_returned st)"

definition network_idle_task :: "env \<Rightarrow> nat \<Rightarrow> app_state \<Rightarrow> task_result" where
  "network_idle_task e fuel st = (let wifi = cy_lwip_get_interface e in idle_loop e wifi fuel st)"

subsection \<open>tcp\_socket\_connection\_start\<close>

text \<open>
  Modelled from the spec: the macro \<open>PRINT_AND_ASSERT\<close> is defined in \<open>app_config.h\<close>,
  which is not among the sources. The specification says of a failed socket
  initialization: "abort immediately with a fatal status (this is treated as
  unrecoverable, not retried)". So a status other than success prints the message and
  stops the program with that status; success does nothing.
\<close>

definition PRINT_AND_ASSERT :: "cy_rslt_t \<Rightarrow> diag \<Rightarrow> app_state \<Rightarrow> unit outcome \<times> app_state" where
  "PRINT_AND_ASSERT result msg st =
     (if CY_RSLT_SUCCESS \<noteq> result then (Halted result, emit (ERR_INFO msg) st)
      else (Returned (), st))"

text \<open>
  The \<open>for\<close> loop of lines 207 to 248, from \<open>index\<close> on. \<open>result\<close> and
  \<open>socket_connection_status\<close> are the two locals the loop assigns.
\<close>

function connect_ports ::
  "env \<Rightarrow> netif_ptr \<Rightarrow> cy_tko_ol_cfg_t \<Rightarrow> nat \<Rightarrow> cy_rslt_t \<Rightarrow> cy_rslt_t \<Rightarrow> app_state
     \<Rightarrow> cy_rslt_t \<times> app_state" where
  "connect_ports e netif downloaded index result socket_connection_status st =
     (if index < MAX_TKO e then
        (let port = ports downloaded ! index in
         if remote_port port > 0 \<and> local_port port > 0 \<and>
            strcmp (remote_ip port) (NULL_IP_ADDRESS e) \<noteq> 0
         then
           (let r = cy_tcp_create_socket_connection e netif index
                      (remote_ip port) (remote_port port) (local_port port) downloaded
                      (ENABLE_HOST_TCP_KEEPALIVE e);
                st1 = emit (Call_cy_tcp_create_socket_connection index (fst r))
                        (st\<lparr>global_socket := (global_socket st)[index := snd r]\<rparr>)
            in if CY_RSLT_SUCCESS \<noteq> fst r
               then connect_ports e netif downloaded (Suc index) (fst r) (fst r)
                      (emit (ERR_INFO (Socket_unable_to_connect index (fst r))) st1)
               else connect_ports e netif downloaded (Suc index) (fst r) socket_connection_status
                      (emit (APP_INFO (Socket_created_connection index)) st1))
         else connect_ports e netif downloaded (Suc index) result socket_connection_status
                (emit (APP_INFO (Socket_skipped index)) st))
      else (socket_connection_status, st))"
  by pat_completeness auto
termination
  by (relation "measure (\<lambda>(e, netif, downloaded, index, r). MAX_TKO e - index)") auto

declare connect_ports.simps [simp del]

definition tcp_socket_connection_start :: "env \<Rightarrow> app_state \<Rightarrow> cy_rslt_t outcome \<times> app_state" where
  "tcp_socket_connection_start e st =
     (let netif = cy_lwip_get_interface e;
          socket_connection_status = CY_RSLT_SUCCESS;
          result = cy_socket_init e;
          st1 = emit (Call_cy_socket_init result) st
      in case PRINT_AND_ASSERT result (Socket_initialization_failed result) st1 of
           (Halted r, st2) \<Rightarrow> (Halted r, st2)
         | (Fault, st2) \<Rightarrow> (Fault, st2)
         | (Returned _, st2) \<Rightarrow>
             (case find_my_tko_descriptor e TCP_KEEPALIVE_OFFLOAD st2 of
                (Halted r, st3) \<Rightarrow> (Halted r, st3)
              | (Fault, st3) \<Rightarrow> (Fault, st3)
              | (Returned None, st3) \<Rightarrow>
                  (Returned CY_RSLT_TYPE_ERROR, emit (ERR_INFO Offload_configuration_not_found) st3)
              | (Returned (Some []), st3) \<Rightarrow> (Fault, st3)
              | (Returned (Some (d # ds)), st3) \<Rightarrow>
                  (case cfg d of
                     Some downloaded \<Rightarrow>
                       (let r = connect_ports e netif downloaded 0 result socket_connection_status
                                  (emit (APP_INFO Taking_configuration) st3)
                        in (Returned (fst r), snd r))
                   | None \<Rightarrow>
                       (Returned CY_RSLT_TYPE_ERROR,
                        emit (ERR_INFO Offload_descriptor_not_found) st3))))"

subsection \<open>wifi\_connect\<close>

text \<open>
  The \<open>for\<close> loop of lines 295 to 312, from \<open>retry_count\<close> on. \<open>retry_count\<close> is
  \<open>uint32_t\<close>, and the macro \<open>MAX_WIFI_RETRY_COUNT\<close> is compared as such.
\<close>

function wifi_retry ::
  "env \<Rightarrow> 32 word \<Rightarrow> cy_rslt_t \<Rightarrow> app_state \<Rightarrow> cy_rslt_t \<times> app_state" where
  "wifi_retry e retry_count result st =
     (if retry_count < MAX_WIFI_RETRY_COUNT e then
        (let r = cy_wcm_connect_ap e (unat retry_count) (connect_param st);
             st1 = emit (Call_cy_wcm_connect_ap (fst r)) (st\<lparr>ip_addr := snd r\<rparr>)
         in if CY_RSLT_SUCCESS = fst r
            then
              (let st2 = emit (APP_INFO (Successfully_joined (SSID (connect_param st1)))) st1
               in (fst r,
                   if CY_WCM_IP_VER_V4 = version (ip_addr st2)
                   then emit (APP_INFO (Assigned_IP_address (ip (ip_addr st2)))) st2
                   else st2))
            else wifi_retry e (retry_count + 1) (fst r)
                   (emit (ERR_INFO Failed_to_join_retrying) st1))
      else (result, st))"
  by pat_completeness auto
termination
proof (relation "measure (\<lambda>(e, retry_count, r). unat (MAX_WIFI_RETRY_COUNT e) - unat retry_count)")
  show "wf (measure (\<lambda>(e, retry_count, r). unat (MAX_WIFI_RETRY_COUNT e) - unat retry_count))"
    by simp
next
  fix e :: env and retry_count :: "32 word" and result :: cy_rslt_t and st :: app_state
  assume less: "retry_count < MAX_WIFI_RETRY_COUNT e"
  then have "unat (retry_count + 1) = Suc (unat retry_count)"
    by unat_arith
  moreover from less have "unat retry_count < unat (MAX_WIFI_RETRY_COUNT e)"
    by (simp add: word_less_nat_alt)
  ultimately show "\<And>x xa. ((e, retry_count + 1, fst x, emit (ERR_INFO Failed_to_join_retrying) xa),
                    (e, retry_count, result, st))
        \<in> measure (\<lambda>(e, retry_count, r). unat (MAX_WIFI_RETRY_COUNT e) - unat retry_count)"
    by simp
qed

declare wifi_retry.simps [simp del]

definition wifi_connect :: "env \<Rightarrow> app_state \<Rightarrow> cy_rslt_t \<times> app_state" where
  "wifi_connect e st =
     (let result = cy_wcm_init e;
          st1 = emit (Call_cy_wcm_init result) st
      in if CY_RSLT_SUCCESS = result then
           (let st2 = emit (APP_INFO Wifi_initialization_successful) st1;
                st3 = st2\<lparr>connect_param := (connect_param st2)
                        \<lparr>SSID := WIFI_SSID e, password := WIFI_PASSWORD e,
                         security := WIFI_SECURITY_TYPE e\<rparr>\<rparr>;
                st4 = emit (APP_INFO (Join_to_AP (SSID (connect_param st3)))) st3
            in wifi_retry e 0 result st4)
         else (result, st1))"

subsection \<open>Reading the log\<close>

text \<open>
  \<open>events_of st st'\<close> are the events a run from \<open>st\<close> to \<open>st'\<close> has added.
  \<open>library_calls\<close> keeps the calls into the libraries and drops the diagnostic lines.
  \<open>attempted\<close> and \<open>skipped\<close> give the slot of a connect attempt and of a "skipped" line.
\<close>

definition events_of :: "app_state \<Rightarrow> app_state \<Rightarrow> event list" where
  "events_of st st' = drop (length (log st)) (log st')"

fun is_call :: "event \<Rightarrow> bool" where
  "is_call (ERR_INFO m) = False"
| "is_call (APP_INFO m) = False"
| "is_call ev = True"

definition library_calls :: "event list \<Rightarrow> event list" where
  "library_calls evs = filter is_call evs"

fun attempted :: "event \<Rightarrow> nat list" where
  "attempted (Call_cy_tcp_create_socket_connection i r) = [i]"
| "attempted ev = []"

fun skipped :: "event \<Rightarrow> nat list" where
  "skipped (APP_INFO (Socket_skipped i)) = [i]"
| "skipped ev = []"

text \<open>The condition of line 211 on a port binding, and the answer to the connect of slot \<open>i\<close>.\<close>

definition is_active :: "env \<Rightarrow> cy_tko_ol_connect_t \<Rightarrow> bool" where
  "is_active e port =
     (remote_port port > 0 \<and> local_port port > 0 \<and>
      strcmp (remote_ip port) (NULL_IP_ADDRESS e) \<noteq> 0)"

definition connect_answer :: "env \<Rightarrow> cy_tko_ol_cfg_t \<Rightarrow> nat \<Rightarrow> cy_rslt_t \<times> socket_ptr" where
  "connect_answer e downloaded i =
     (let port = ports downloaded ! i
      in cy_tcp_create_socket_connection e (cy_lwip_get_interface e) i (remote_ip port)
           (remote_port port) (local_port port) downloaded (ENABLE_HOST_TCP_KEEPALIVE e))"

text \<open>The credentials \<open>wifi_connect\<close> copies into \<open>connect_param\<close> (lines 286 to 288).\<close>

definition with_credentials :: "env \<Rightarrow> cy_wcm_connect_params_t \<Rightarrow> cy_wcm_connect_params_t" where
  "with_credentials e cp =
     cp\<lparr>SSID := WIFI_SSID e, password := WIFI_PASSWORD e, security := WIFI_SECURITY_TYPE e\<rparr>"

definition ap_answer :: "env \<Rightarrow> app_state \<Rightarrow> nat \<Rightarrow> cy_rslt_t \<times> cy_wcm_ip_address_t" where
  "ap_answer e st k = cy_wcm_connect_ap e k (with_credentials e (connect_param st))"

text \<open>
  The status the connect loop ends with, written over the list of the statuses it has
  seen: the last one that is not success, or the initial status when there is none.
\<close>

definition fold_status :: "cy_rslt_t \<Rightarrow> cy_rslt_t list \<Rightarrow> cy_rslt_t" where
  "fold_status status rs =
     (case filter (\<lambda>r. r \<noteq> CY_RSLT_SUCCESS) rs of [] \<Rightarrow> status | f # fs \<Rightarrow> last (f # fs))"

fun connect_result :: "event \<Rightarrow> cy_rslt_t list" where
  "connect_result (Call_cy_tcp_create_socket_connection i r) = [r]"
| "connect_result ev = []"

subsection \<open>A configuration to run the functions on\<close>

text \<open>
  Four slots: slots 0 and 2 are configured, slot 1 is empty, slot 3 has ports and the
  null address. The server of slot 0 refuses the connection (status 5), the one of
  slot 2 accepts it. The access point accepts the third attempt.
\<close>

definition example_cfg :: cy_tko_ol_cfg_t where
  "example_cfg = \<lparr>ports =
     [\<lparr>local_port = 3353, remote_port = 3360, remote_ip = ''192.168.1.10''\<rparr>,
      \<lparr>local_port = 0, remote_port = 0, remote_ip = ''0.0.0.0''\<rparr>,
      \<lparr>local_port = 3354, remote_port = 3361, remote_ip = ''192.168.1.11''\<rparr>,
      \<lparr>local_port = 3355, remote_port = 3362, remote_ip = ''0.0.0.0''\<rparr>]\<rparr>"

definition example_list :: "ol_desc_t list" where
  "example_list =
     [\<lparr>name = Some ''Pkt_Filter'', cfg = None\<rparr>,
      \<lparr>name = Some ''TKO'', cfg = Some example_cfg\<rparr>,
      \<lparr>name = None, cfg = None\<rparr>]"

definition example_address :: cy_wcm_ip_address_t where
  "example_address = \<lparr>version = CY_WCM_IP_VER_V4, ip = [0xC0A80105]\<rparr>"

definition no_address :: cy_wcm_ip_address_t where
  "no_address = \<lparr>version = CY_WCM_IP_VER_V4, ip = [0]\<rparr>"

definition example_env :: env where
  "example_env =
     \<lparr>MAX_TKO = 4, NULL_IP_ADDRESS = ''0.0.0.0'', ENABLE_HOST_TCP_KEEPALIVE = 1,
      MAX_WIFI_RETRY_COUNT = 3, WIFI_SSID = ''ap'', WIFI_PASSWORD = ''secret'',
      WIFI_SECURITY_TYPE = 4,
      NETWORK_INACTIVE_INTERVAL_MS = 300, NETWORK_INACTIVE_WINDOW_MS = 200,
      NETWORK_SUSPEND_DELAY_MS = 100, portMAX_DELAY = 0xFFFFFFFF,
      pdMS_TO_TICKS = (\<lambda>ms. ms),
      get_default_ol_list = Some example_list,
      cy_lwip_get_interface = Some 1,
      cy_socket_init = 0,
      cy_tcp_create_socket_connection =
        (\<lambda>netif i rip rport lport c k. if i = 0 then (5, None) else (0, Some (100 + i))),
      cy_wcm_init = 0,
      cy_wcm_connect_ap = (\<lambda>k cp. if k < 2 then (7, no_address) else (0, example_address))\<rparr>"

definition example_state :: app_state where
  "example_state =
     \<lparr>connect_param = \<lparr>SSID = [], password = [], security = 0\<rparr>,
      ip_addr = no_address,
      global_socket = [None, None, None, None],
      log = []\<rparr>"

section \<open>Properties\<close>

subsection \<open>C strings\<close>

lemma strncmp_prefix: "(strncmp a b (strlen b) = 0) = prefix (cstr b) (cstr a)"
proof (induction b arbitrary: a)
  case Nil
  then show ?case by (simp add: cstr_def)
next
  case (Cons c b)
  show ?case
  proof (cases "c = NUL")
    case True
    then show ?thesis by (simp add: cstr_def)
  next
    case False
    show ?thesis
    proof (cases a)
      case Nil
      with False show ?thesis by (simp add: cstr_def peek_def)
    next
      case (Cons x a')
      with False Cons.IH [of a'] show ?thesis
        by (auto simp: cstr_def peek_def)
    qed
  qed
qed

lemma strcmp_cstr: "(strcmp a b = 0) = (cstr a = cstr b)"
proof (induction a arbitrary: b)
  case Nil
  show ?case by (cases b) (auto simp: cstr_def peek_def)
next
  case (Cons x a)
  from Cons.IH show ?case by (cases b) (auto simp: cstr_def peek_def)
qed

lemma is_active_iff:
  "is_active e port =
     (remote_port port \<noteq> 0 \<and> local_port port \<noteq> 0 \<and>
      cstr (remote_ip port) \<noteq> cstr (NULL_IP_ADDRESS e))"
  by (simp add: is_active_def strcmp_cstr word_greater_zero_iff)

subsection \<open>The log\<close>

lemma events_of_append [simp]: "log st' = log st @ evs \<Longrightarrow> events_of st st' = evs"
  by (simp add: events_of_def)

lemma library_calls_append [simp]:
  "library_calls (xs @ ys) = library_calls xs @ library_calls ys"
  by (simp add: library_calls_def)

lemma connect_result_calls:
  "concat (map connect_result (library_calls evs)) = concat (map connect_result evs)"
proof (induction evs)
  case Nil
  show ?case by (simp add: library_calls_def)
next
  case (Cons ev evs)
  then show ?case by (cases ev) (simp_all add: library_calls_def)
qed

lemma filter_nth_upt:
  "filter P xs = map ((!) xs) (filter (\<lambda>i. P (xs ! i)) [0..<length xs])"
proof -
  have "filter P (map ((!) xs) [0..<length xs]) =
          map ((!) xs) (filter (\<lambda>i. P (xs ! i)) [0..<length xs])"
    by (simp add: filter_map comp_def)
  then show ?thesis by (simp add: map_nth)
qed

lemma length_filter_nth_upt:
  "length (filter (\<lambda>i. P (xs ! i)) [0..<length xs]) = length (filter P xs)"
  by (subst filter_nth_upt [of P xs]) simp

subsection \<open>The descriptor lookup\<close>

lemma scan_offloads_sentinel:
  assumes "\<forall>d\<in>set pre. name d \<noteq> None" and "name s = None"
  shows "scan_offloads (Some (pre @ s # rest)) nm =
           Returned (Some (dropWhile (\<lambda>d. \<not> prefix (cstr nm) (cstr (the (name d)))) pre @ s # rest))"
  using assms
proof (induction pre)
  case Nil
  then show ?case by simp
next
  case (Cons d pre)
  then obtain n where n: "name d = Some n" by auto
  with Cons show ?case by (simp add: strncmp_prefix)
qed

lemma find_fst_indep:
  "fst (find_my_tko_descriptor e nm st) = fst (find_my_tko_descriptor e nm st')"
  by (auto simp: find_my_tko_descriptor_def Let_def split: outcome.splits option.splits list.splits)

lemma find_snd:
  "snd (find_my_tko_descriptor e nm st) =
     (if fst (find_my_tko_descriptor e nm st) = Returned None
      then emit (ERR_INFO (Unable_to_find nm)) (emit Call_get_default_ol_list st)
      else emit Call_get_default_ol_list st)"
  by (auto simp: find_my_tko_descriptor_def Let_def split: outcome.splits option.splits list.splits)

lemma find_found:
  assumes "fst (find_my_tko_descriptor e nm st0) = Returned (Some ds)"
  shows "find_my_tko_descriptor e nm st = (Returned (Some ds), emit Call_get_default_ol_list st)"
proof (rule prod_eqI)
  show "fst (find_my_tko_descriptor e nm st) = fst (Returned (Some ds), emit Call_get_default_ol_list st)"
    using assms find_fst_indep [of e nm st st0] by simp
  then show "snd (find_my_tko_descriptor e nm st) = snd (Returned (Some ds), emit Call_get_default_ol_list st)"
    by (simp add: find_snd)
qed

lemma find_not_found:
  assumes "fst (find_my_tko_descriptor e nm st0) = Returned None"
  shows "find_my_tko_descriptor e nm st =
           (Returned None, emit (ERR_INFO (Unable_to_find nm)) (emit Call_get_default_ol_list st))"
proof (rule prod_eqI)
  show "fst (find_my_tko_descriptor e nm st) =
          fst (Returned None :: ol_desc_ptr outcome, emit (ERR_INFO (Unable_to_find nm)) (emit Call_get_default_ol_list st))"
    using assms find_fst_indep [of e nm st st0] by simp
  then show "snd (find_my_tko_descriptor e nm st) =
          snd (Returned None :: ol_desc_ptr outcome, emit (ERR_INFO (Unable_to_find nm)) (emit Call_get_default_ol_list st))"
    by (simp add: find_snd)
qed

subsection \<open>The connect loop\<close>

lemma connect_ports_stop:
  "\<not> index < MAX_TKO e \<Longrightarrow> connect_ports e netif dl index result status st = (status, st)"
  by (subst connect_ports.simps) simp

lemma connect_ports_skip:
  "index < MAX_TKO e \<Longrightarrow> \<not> is_active e (ports dl ! index) \<Longrightarrow>
   connect_ports e netif dl index result status st =
     connect_ports e netif dl (Suc index) result status (emit (APP_INFO (Socket_skipped index)) st)"
  by (subst connect_ports.simps) (auto simp: Let_def is_active_def)

lemma connect_ports_attempt:
  "index < MAX_TKO e \<Longrightarrow> is_active e (ports dl ! index) \<Longrightarrow>
   connect_ports e (cy_lwip_get_interface e) dl index result status st =
     connect_ports e (cy_lwip_get_interface e) dl (Suc index) (fst (connect_answer e dl index))
       (if CY_RSLT_SUCCESS \<noteq> fst (connect_answer e dl index)
        then fst (connect_answer e dl index) else status)
       (emit (if CY_RSLT_SUCCESS \<noteq> fst (connect_answer e dl index)
              then ERR_INFO (Socket_unable_to_connect index (fst (connect_answer e dl index)))
              else APP_INFO (Socket_created_connection index))
          (emit (Call_cy_tcp_create_socket_connection index (fst (connect_answer e dl index)))
             (st\<lparr>global_socket := (global_socket st)[index := snd (connect_answer e dl index)]\<rparr>)))"
  by (subst connect_ports.simps) (auto simp: Let_def is_active_def connect_answer_def)

lemma fold_status_Cons:
  "fold_status status (r # rs) = fold_status (if CY_RSLT_SUCCESS \<noteq> r then r else status) rs"
  by (auto simp: fold_status_def split: list.splits)

lemma connect_ports_status:
  "fst (connect_ports e (cy_lwip_get_interface e) dl index result status st) =
     fold_status status
       (map (\<lambda>i. fst (connect_answer e dl i))
          (filter (\<lambda>i. is_active e (ports dl ! i)) [index..<MAX_TKO e]))"
proof (induction "MAX_TKO e - index" arbitrary: index result status st)
  case 0
  then show ?case by (simp add: connect_ports_stop fold_status_def)
next
  case (Suc n)
  then have less: "index < MAX_TKO e" and n: "n = MAX_TKO e - Suc index" by simp_all
  show ?case
  proof (cases "is_active e (ports dl ! index)")
    case True
    with less Suc.hyps(1) [OF n] show ?thesis
      by (simp add: connect_ports_attempt upt_conv_Cons fold_status_Cons)
  next
    case False
    with less Suc.hyps(1) [OF n] show ?thesis
      by (simp add: connect_ports_skip upt_conv_Cons)
  qed
qed

lemma connect_ports_log:
  "\<exists>evs. log (snd (connect_ports e (cy_lwip_get_interface e) dl index result status st)) = log st @ evs \<and>
     library_calls evs =
       map (\<lambda>i. Call_cy_tcp_create_socket_connection i (fst (connect_answer e dl i)))
         (filter (\<lambda>i. is_active e (ports dl ! i)) [index..<MAX_TKO e]) \<and>
     concat (map attempted evs) = filter (\<lambda>i. is_active e (ports dl ! i)) [index..<MAX_TKO e] \<and>
     concat (map skipped evs) = filter (\<lambda>i. \<not> is_active e (ports dl ! i)) [index..<MAX_TKO e] \<and>
     concat (map (\<lambda>ev. attempted ev @ skipped ev) evs) = [index..<MAX_TKO e]"
proof (induction "MAX_TKO e - index" arbitrary: index result status st)
  case 0
  then show ?case by (simp add: connect_ports_stop library_calls_def)
next
  case (Suc n)
  then have less: "index < MAX_TKO e" and n: "n = MAX_TKO e - Suc index" by simp_all
  show ?case
  proof (cases "is_active e (ports dl ! index)")
    case True
    let ?r = "fst (connect_answer e dl index)"
    let ?st = "emit (if CY_RSLT_SUCCESS \<noteq> ?r
              then ERR_INFO (Socket_unable_to_connect index ?r)
              else APP_INFO (Socket_created_connection index))
          (emit (Call_cy_tcp_create_socket_connection index ?r)
             (st\<lparr>global_socket := (global_socket st)[index := snd (connect_answer e dl index)]\<rparr>))"
    from Suc.hyps(1) [OF n, of ?r "if CY_RSLT_SUCCESS \<noteq> ?r then ?r else status" ?st]
    obtain evs where evs: "log (snd (connect_ports e (cy_lwip_get_interface e) dl (Suc index) ?r
         (if CY_RSLT_SUCCESS \<noteq> ?r then ?r else status) ?st)) = log ?st @ evs"
      "library_calls evs =
       map (\<lambda>i. Call_cy_tcp_create_socket_connection i (fst (connect_answer e dl i)))
         (filter (\<lambda>i. is_active e (ports dl ! i)) [Suc index..<MAX_TKO e])"
     "concat (map attempted evs) = filter (\<lambda>i. is_active e (ports dl ! i)) [Suc index..<MAX_TKO e]"
     "concat (map skipped evs) = filter (\<lambda>i. \<not> is_active e (ports dl ! i)) [Suc index..<MAX_TKO e]"
     "concat (map (\<lambda>ev. attempted ev @ skipped ev) evs) = [Suc index..<MAX_TKO e]"
      by blast
    let ?evs = "[Call_cy_tcp_create_socket_connection index ?r,
                 if CY_RSLT_SUCCESS \<noteq> ?r
                 then ERR_INFO (Socket_unable_to_connect index ?r)
                 else APP_INFO (Socket_created_connection index)] @ evs"
    have "log (snd (connect_ports e (cy_lwip_get_interface e) dl index result status st)) = log st @ ?evs"
      using less True evs(1) by (simp add: connect_ports_attempt emit_def)
    moreover have "library_calls ?evs =
       map (\<lambda>i. Call_cy_tcp_create_socket_connection i (fst (connect_answer e dl i)))
         (filter (\<lambda>i. is_active e (ports dl ! i)) [index..<MAX_TKO e])"
      using less True evs(2) by (simp add: upt_conv_Cons library_calls_def)
    moreover have "concat (map attempted ?evs) = filter (\<lambda>i. is_active e (ports dl ! i)) [index..<MAX_TKO e]"
      using less True evs(3) by (simp add: upt_conv_Cons)
    moreover have "concat (map skipped ?evs) = filter (\<lambda>i. \<not> is_active e (ports dl ! i)) [index..<MAX_TKO e]"
      using less True evs(4) by (simp add: upt_conv_Cons)
    moreover have "concat (map (\<lambda>ev. attempted ev @ skipped ev) ?evs) = [index..<MAX_TKO e]"
      using less True evs(5) by (simp add: upt_conv_Cons)
    ultimately show ?thesis by blast
  next
    case False
    let ?st = "emit (APP_INFO (Socket_skipped index)) st"
    from Suc.hyps(1) [OF n, of result status ?st]
    obtain evs where evs: "log (snd (connect_ports e (cy_lwip_get_interface e) dl (Suc index) result status ?st)) = log ?st @ evs"
      "library_calls evs =
       map (\<lambda>i. Call_cy_tcp_create_socket_connection i (fst (connect_answer e dl i)))
         (filter (\<lambda>i. is_active e (ports dl ! i)) [Suc index..<MAX_TKO e])"
     "concat (map attempted evs) = filter (\<lambda>i. is_active e (ports dl ! i)) [Suc index..<MAX_TKO e]"
     "concat (map skipped evs) = filter (\<lambda>i. \<not> is_active e (ports dl ! i)) [Suc index..<MAX_TKO e]"
     "concat (map (\<lambda>ev. attempted ev @ skipped ev) evs) = [Suc index..<MAX_TKO e]"
      by blast
    let ?evs = "APP_INFO (Socket_skipped index) # evs"
    have "log (snd (connect_ports e (cy_lwip_get_interface e) dl index result status st)) = log st @ ?evs"
      using less False evs(1) by (simp add: connect_ports_skip emit_def)
    moreover have "library_calls ?evs =
       map (\<lambda>i. Call_cy_tcp_create_socket_connection i (fst (connect_answer e dl i)))
         (filter (\<lambda>i. is_active e (ports dl ! i)) [index..<MAX_TKO e])"
      using less False evs(2) by (simp add: upt_conv_Cons library_calls_def)
    moreover have "concat (map attempted ?evs) = filter (\<lambda>i. is_active e (ports dl ! i)) [index..<MAX_TKO e]"
      using less False evs(3) by (simp add: upt_conv_Cons)
    moreover have "concat (map skipped ?evs) = filter (\<lambda>i. \<not> is_active e (ports dl ! i)) [index..<MAX_TKO e]"
      using less False evs(4) by (simp add: upt_conv_Cons)
    moreover have "concat (map (\<lambda>ev. attempted ev @ skipped ev) ?evs) = [index..<MAX_TKO e]"
      using less False evs(5) by (simp add: upt_conv_Cons)
    ultimately show ?thesis by blast
  qed
qed

subsection \<open>The retry loop\<close>

lemma wifi_retry_stop:
  "\<not> retry_count < MAX_WIFI_RETRY_COUNT e \<Longrightarrow> wifi_retry e retry_count result st = (result, st)"
  by (subst wifi_retry.simps) simp

lemma wifi_retry_fail:
  "retry_count < MAX_WIFI_RETRY_COUNT e \<Longrightarrow>
   fst (cy_wcm_connect_ap e (unat retry_count) (connect_param st)) \<noteq> CY_RSLT_SUCCESS \<Longrightarrow>
   wifi_retry e retry_count result st =
     wifi_retry e (retry_count + 1) (fst (cy_wcm_connect_ap e (unat retry_count) (connect_param st)))
       (emit (ERR_INFO Failed_to_join_retrying)
          (emit (Call_cy_wcm_connect_ap (fst (cy_wcm_connect_ap e (unat retry_count) (connect_param st))))
             (st\<lparr>ip_addr := snd (cy_wcm_connect_ap e (unat retry_count) (connect_param st))\<rparr>)))"
  by (subst wifi_retry.simps) (auto simp: Let_def)

lemma wifi_retry_ok:
  "retry_count < MAX_WIFI_RETRY_COUNT e \<Longrightarrow>
   fst (cy_wcm_connect_ap e (unat retry_count) (connect_param st)) = CY_RSLT_SUCCESS \<Longrightarrow>
   wifi_retry e retry_count result st =
     (CY_RSLT_SUCCESS,
      let st2 = emit (APP_INFO (Successfully_joined (SSID (connect_param st))))
                  (emit (Call_cy_wcm_connect_ap CY_RSLT_SUCCESS)
                     (st\<lparr>ip_addr := snd (cy_wcm_connect_ap e (unat retry_count) (connect_param st))\<rparr>))
      in if CY_WCM_IP_VER_V4 = version (ip_addr st2)
         then emit (APP_INFO (Assigned_IP_address (ip (ip_addr st2)))) st2 else st2)"
  by (subst wifi_retry.simps) (auto simp: Let_def emit_def)

lemma unat_inc: "(retry_count :: 32 word) < m \<Longrightarrow> unat (retry_count + 1) = Suc (unat retry_count)"
  by unat_arith

text \<open>The loop after \<open>n\<close> failed attempts from \<open>retry_count\<close> on and one that succeeds.\<close>

lemma wifi_retry_succeeds:
  assumes "unat retry_count + n < unat (MAX_WIFI_RETRY_COUNT e)"
      and "\<forall>j<n. fst (cy_wcm_connect_ap e (unat retry_count + j) (connect_param st)) \<noteq> CY_RSLT_SUCCESS"
      and "fst (cy_wcm_connect_ap e (unat retry_count + n) (connect_param st)) = CY_RSLT_SUCCESS"
  shows "fst (wifi_retry e retry_count result st) = CY_RSLT_SUCCESS \<and>
         ip_addr (snd (wifi_retry e retry_count result st)) =
           snd (cy_wcm_connect_ap e (unat retry_count + n) (connect_param st)) \<and>
         connect_param (snd (wifi_retry e retry_count result st)) = connect_param st \<and>
         global_socket (snd (wifi_retry e retry_count result st)) = global_socket st \<and>
         (\<exists>evs. log (snd (wifi_retry e retry_count result st)) = log st @ evs \<and>
            library_calls evs =
              map (\<lambda>j. Call_cy_wcm_connect_ap (fst (cy_wcm_connect_ap e (unat retry_count + j) (connect_param st))))
                [0..<Suc n])"
  using assms
proof (induction n arbitrary: retry_count result st)
  case 0
  then have less: "retry_count < MAX_WIFI_RETRY_COUNT e"
    by (simp add: word_less_nat_alt)
  with 0 show ?case
    by (simp add: wifi_retry_ok Let_def emit_def library_calls_def)
next
  case (Suc n)
  then have less: "retry_count < MAX_WIFI_RETRY_COUNT e"
    by (simp add: word_less_nat_alt)
  let ?r = "cy_wcm_connect_ap e (unat retry_count) (connect_param st)"
  let ?st = "emit (ERR_INFO Failed_to_join_retrying)
          (emit (Call_cy_wcm_connect_ap (fst ?r)) (st\<lparr>ip_addr := snd ?r\<rparr>))"
  from Suc.prems(2) have fail: "fst ?r \<noteq> CY_RSLT_SUCCESS"
    by (metis add.right_neutral zero_less_Suc)
  have step: "wifi_retry e retry_count result st = wifi_retry e (retry_count + 1) (fst ?r) ?st"
    using less fail by (rule wifi_retry_fail)
  have inc: "unat (retry_count + 1) = Suc (unat retry_count)"
    using less by (rule unat_inc)
  have cp: "connect_param ?st = connect_param st"
    by (simp add: emit_def)
  have "unat (retry_count + 1) + n < unat (MAX_WIFI_RETRY_COUNT e)"
    using Suc.prems(1) inc by simp
  moreover have "\<forall>j<n. fst (cy_wcm_connect_ap e (unat (retry_count + 1) + j) (connect_param ?st)) \<noteq> CY_RSLT_SUCCESS"
    using Suc.prems(2) inc cp by auto
  moreover have "fst (cy_wcm_connect_ap e (unat (retry_count + 1) + n) (connect_param ?st)) = CY_RSLT_SUCCESS"
    using Suc.prems(3) inc cp by simp
  ultimately have IH: "fst (wifi_retry e (retry_count + 1) (fst ?r) ?st) = CY_RSLT_SUCCESS \<and>
         ip_addr (snd (wifi_retry e (retry_count + 1) (fst ?r) ?st)) =
           snd (cy_wcm_connect_ap e (unat (retry_count + 1) + n) (connect_param ?st)) \<and>
         connect_param (snd (wifi_retry e (retry_count + 1) (fst ?r) ?st)) = connect_param ?st \<and>
         global_socket (snd (wifi_retry e (retry_count + 1) (fst ?r) ?st)) = global_socket ?st \<and>
         (\<exists>evs. log (snd (wifi_retry e (retry_count + 1) (fst ?r) ?st)) = log ?st @ evs \<and>
            library_calls evs =
              map (\<lambda>j. Call_cy_wcm_connect_ap (fst (cy_wcm_connect_ap e (unat (retry_count + 1) + j) (connect_param ?st))))
                [0..<Suc n])"
    by (rule Suc.IH)
  then obtain evs where evs: "log (snd (wifi_retry e (retry_count + 1) (fst ?r) ?st)) = log ?st @ evs"
     "library_calls evs =
              map (\<lambda>j. Call_cy_wcm_connect_ap (fst (cy_wcm_connect_ap e (unat (retry_count + 1) + j) (connect_param ?st))))
                [0..<Suc n]"
    by blast
  let ?evs = "[Call_cy_wcm_connect_ap (fst ?r), ERR_INFO Failed_to_join_retrying] @ evs"
  have "log (snd (wifi_retry e retry_count result st)) = log st @ ?evs"
    using evs(1) by (simp add: step emit_def)
  moreover have "library_calls ?evs =
      map (\<lambda>j. Call_cy_wcm_connect_ap (fst (cy_wcm_connect_ap e (unat retry_count + j) (connect_param st))))
                [0..<Suc (Suc n)]"
    using evs(2) by (simp add: library_calls_def inc cp map_upt_Suc [where n = "Suc n"] del: upt_Suc)
  ultimately have "\<exists>evs. log (snd (wifi_retry e retry_count result st)) = log st @ evs \<and>
            library_calls evs =
              map (\<lambda>j. Call_cy_wcm_connect_ap (fst (cy_wcm_connect_ap e (unat retry_count + j) (connect_param st))))
                [0..<Suc (Suc n)]"
    by blast
  with IH show ?case
    by (simp add: step inc cp emit_def del: upt_Suc)
qed

text \<open>The loop when the \<open>n\<close> attempts that are left all fail.\<close>

lemma wifi_retry_exhausts:
  assumes "unat retry_count + n = unat (MAX_WIFI_RETRY_COUNT e)"
      and "\<forall>j<n. fst (cy_wcm_connect_ap e (unat retry_count + j) (connect_param st)) \<noteq> CY_RSLT_SUCCESS"
  shows "fst (wifi_retry e retry_count result st) =
           (if n = 0 then result
            else fst (cy_wcm_connect_ap e (unat retry_count + n - 1) (connect_param st))) \<and>
         connect_param (snd (wifi_retry e retry_count result st)) = connect_param st \<and>
         global_socket (snd (wifi_retry e retry_count result st)) = global_socket st \<and>
         (\<exists>evs. log (snd (wifi_retry e retry_count result st)) = log st @ evs \<and>
            library_calls evs =
              map (\<lambda>j. Call_cy_wcm_connect_ap (fst (cy_wcm_connect_ap e (unat retry_count + j) (connect_param st))))
                [0..<n])"
  using assms
proof (induction n arbitrary: retry_count result st)
  case 0
  then have "\<not> retry_count < MAX_WIFI_RETRY_COUNT e"
    by (simp add: word_less_nat_alt)
  then show ?case
    by (simp add: wifi_retry_stop library_calls_def)
next
  case (Suc n)
  then have less: "retry_count < MAX_WIFI_RETRY_COUNT e"
    by (simp add: word_less_nat_alt)
  let ?r = "cy_wcm_connect_ap e (unat retry_count) (connect_param st)"
  let ?st = "emit (ERR_INFO Failed_to_join_retrying)
          (emit (Call_cy_wcm_connect_ap (fst ?r)) (st\<lparr>ip_addr := snd ?r\<rparr>))"
  from Suc.prems(2) have fail: "fst ?r \<noteq> CY_RSLT_SUCCESS"
    by (metis add.right_neutral zero_less_Suc)
  have step: "wifi_retry e retry_count result st = wifi_retry e (retry_count + 1) (fst ?r) ?st"
    using less fail by (rule wifi_retry_fail)
  have inc: "unat (retry_count + 1) = Suc (unat retry_count)"
    using less by (rule unat_inc)
  have cp: "connect_param ?st = connect_param st"
    by (simp add: emit_def)
  have "unat (retry_count + 1) + n = unat (MAX_WIFI_RETRY_COUNT e)"
    using Suc.prems(1) inc by simp
  moreover have "\<forall>j<n. fst (cy_wcm_connect_ap e (unat (retry_count + 1) + j) (connect_param ?st)) \<noteq> CY_RSLT_SUCCESS"
    using Suc.prems(2) inc cp by auto
  ultimately have IH: "fst (wifi_retry e (retry_count + 1) (fst ?r) ?st) =
           (if n = 0 then fst ?r
            else fst (cy_wcm_connect_ap e (unat (retry_count + 1) + n - 1) (connect_param ?st))) \<and>
         connect_param (snd (wifi_retry e (retry_count + 1) (fst ?r) ?st)) = connect_param ?st \<and>
         global_socket (snd (wifi_retry e (retry_count + 1) (fst ?r) ?st)) = global_socket ?st \<and>
         (\<exists>evs. log (snd (wifi_retry e (retry_count + 1) (fst ?r) ?st)) = log ?st @ evs \<and>
            library_calls evs =
              map (\<lambda>j. Call_cy_wcm_connect_ap (fst (cy_wcm_connect_ap e (unat (retry_count + 1) + j) (connect_param ?st))))
                [0..<n])"
    by (rule Suc.IH)
  then obtain evs where evs: "log (snd (wifi_retry e (retry_count + 1) (fst ?r) ?st)) = log ?st @ evs"
     "library_calls evs =
              map (\<lambda>j. Call_cy_wcm_connect_ap (fst (cy_wcm_connect_ap e (unat (retry_count + 1) + j) (connect_param ?st))))
                [0..<n]"
    by blast
  let ?evs = "[Call_cy_wcm_connect_ap (fst ?r), ERR_INFO Failed_to_join_retrying] @ evs"
  have "log (snd (wifi_retry e retry_count result st)) = log st @ ?evs"
    using evs(1) by (simp add: step emit_def)
  moreover have "library_calls ?evs =
      map (\<lambda>j. Call_cy_wcm_connect_ap (fst (cy_wcm_connect_ap e (unat retry_count + j) (connect_param st))))
                [0..<Suc n]"
    using evs(2) by (simp add: library_calls_def inc cp map_upt_Suc [where n = n] del: upt_Suc)
  ultimately have "\<exists>evs. log (snd (wifi_retry e retry_count result st)) = log st @ evs \<and>
            library_calls evs =
              map (\<lambda>j. Call_cy_wcm_connect_ap (fst (cy_wcm_connect_ap e (unat retry_count + j) (connect_param st))))
                [0..<Suc n]"
    by blast
  with IH show ?case
    by (auto simp: step inc cp emit_def simp del: upt_Suc)
qed

subsection \<open>The idle loop\<close>

lemma idle_loop_run:
  "idle_loop e wifi fuel st =
     Still_running (st\<lparr>log := log st @ concat (replicate fuel
       [Call_wait_net_suspend wifi (portMAX_DELAY e) (NETWORK_INACTIVE_INTERVAL_MS e)
          (NETWORK_INACTIVE_WINDOW_MS e),
        Call_vTaskDelay (pdMS_TO_TICKS e (NETWORK_SUSPEND_DELAY_MS e))])\<rparr>)"
proof (induction fuel arbitrary: st)
  case 0
  show ?case by simp
next
  case (Suc fuel)
  show ?case
    by (simp add: Suc.IH emit_def)
qed

subsection \<open>tcp\_socket\_connection\_start, path by path\<close>

lemma start_init_failure:
  assumes "cy_socket_init e \<noteq> CY_RSLT_SUCCESS"
  shows "tcp_socket_connection_start e st =
           (Halted (cy_socket_init e),
            emit (ERR_INFO (Socket_initialization_failed (cy_socket_init e)))
              (emit (Call_cy_socket_init (cy_socket_init e)) st))"
  using assms by (auto simp: tcp_socket_connection_start_def PRINT_AND_ASSERT_def Let_def)

lemma start_not_found:
  assumes "cy_socket_init e = CY_RSLT_SUCCESS"
      and "fst (find_my_tko_descriptor e TCP_KEEPALIVE_OFFLOAD st0) = Returned None"
  shows "tcp_socket_connection_start e st =
           (Returned CY_RSLT_TYPE_ERROR,
            st\<lparr>log := log st @
              [Call_cy_socket_init CY_RSLT_SUCCESS, Call_get_default_ol_list,
               ERR_INFO (Unable_to_find TCP_KEEPALIVE_OFFLOAD),
               ERR_INFO Offload_configuration_not_found]\<rparr>)"
  using assms(1)
  by (simp add: tcp_socket_connection_start_def PRINT_AND_ASSERT_def Let_def
        find_not_found [OF assms(2)] emit_def)

lemma start_no_cfg:
  assumes "cy_socket_init e = CY_RSLT_SUCCESS"
      and "fst (find_my_tko_descriptor e TCP_KEEPALIVE_OFFLOAD st0) = Returned (Some (d # ds))"
      and "cfg d = None"
  shows "tcp_socket_connection_start e st =
           (Returned CY_RSLT_TYPE_ERROR,
            st\<lparr>log := log st @
              [Call_cy_socket_init CY_RSLT_SUCCESS, Call_get_default_ol_list,
               ERR_INFO Offload_descriptor_not_found]\<rparr>)"
  using assms(1,3)
  by (simp add: tcp_socket_connection_start_def PRINT_AND_ASSERT_def Let_def
        find_found [OF assms(2)] emit_def)

lemma start_connects:
  assumes "cy_socket_init e = CY_RSLT_SUCCESS"
      and "fst (find_my_tko_descriptor e TCP_KEEPALIVE_OFFLOAD st0) = Returned (Some (d # ds))"
      and "cfg d = Some downloaded"
  shows "tcp_socket_connection_start e st =
           (Returned (fst (connect_ports e (cy_lwip_get_interface e) downloaded 0
                        CY_RSLT_SUCCESS CY_RSLT_SUCCESS
                        (st\<lparr>log := log st @
                           [Call_cy_socket_init CY_RSLT_SUCCESS, Call_get_default_ol_list,
                            APP_INFO Taking_configuration]\<rparr>))),
            snd (connect_ports e (cy_lwip_get_interface e) downloaded 0
                   CY_RSLT_SUCCESS CY_RSLT_SUCCESS
                   (st\<lparr>log := log st @
                      [Call_cy_socket_init CY_RSLT_SUCCESS, Call_get_default_ol_list,
                       APP_INFO Taking_configuration]\<rparr>)))"
  using assms(1,3)
  by (simp add: tcp_socket_connection_start_def PRINT_AND_ASSERT_def Let_def
        find_found [OF assms(2)] emit_def)

lemma fold_status_failure:
  "\<exists>r\<in>set rs. r \<noteq> CY_RSLT_SUCCESS \<Longrightarrow>
   fold_status status rs = last (filter (\<lambda>r. r \<noteq> CY_RSLT_SUCCESS) rs)"
  by (auto simp: fold_status_def filter_empty_conv split: list.splits)

lemma fold_status_success:
  "(fold_status CY_RSLT_SUCCESS rs = CY_RSLT_SUCCESS) = (\<forall>r\<in>set rs. r = CY_RSLT_SUCCESS)"
proof (cases "filter (\<lambda>r. r \<noteq> CY_RSLT_SUCCESS) rs = []")
  case True
  then show ?thesis by (simp add: fold_status_def filter_empty_conv)
next
  case False
  then have "last (filter (\<lambda>r. r \<noteq> CY_RSLT_SUCCESS) rs) \<in> set (filter (\<lambda>r. r \<noteq> CY_RSLT_SUCCESS) rs)"
    by (rule last_in_set)
  then have ne: "last (filter (\<lambda>r. r \<noteq> CY_RSLT_SUCCESS) rs) \<noteq> CY_RSLT_SUCCESS"
    by simp
  from False have ex: "\<exists>r\<in>set rs. r \<noteq> CY_RSLT_SUCCESS"
    by (simp add: filter_empty_conv)
  from ne ex show ?thesis
    by (simp add: fold_status_failure [OF ex])
qed

section \<open>The specified behaviour, claim by claim\<close>

text \<open>
  C1. When the socket library initialises, the "TKO" descriptor is found and its
  configuration is present, \<open>tcp_socket_connection_start\<close> returns; the statuses it has
  observed are those of the connects of the active bindings in index order; it returns
  \<open>CY_RSLT_SUCCESS\<close> if and only if every one of them is success (so also when no binding
  is active), and otherwise the last status among them that is not success, whatever
  successes follow it.
\<close>

theorem tcp_socket_connection_start_status:
  assumes "cy_socket_init e = CY_RSLT_SUCCESS"
      and "fst (find_my_tko_descriptor e TCP_KEEPALIVE_OFFLOAD st0) = Returned (Some (d # ds))"
      and "cfg d = Some downloaded"
      and "length (ports downloaded) = MAX_TKO e"
  shows "let rs = concat (map connect_result
                     (events_of st (snd (tcp_socket_connection_start e st))))
         in rs = map (\<lambda>i. fst (connect_answer e downloaded i))
                   (filter (\<lambda>i. is_active e (ports downloaded ! i)) [0..<MAX_TKO e]) \<and>
            (\<exists>status. fst (tcp_socket_connection_start e st) = Returned status \<and>
               (status = CY_RSLT_SUCCESS) = (\<forall>r\<in>set rs. r = CY_RSLT_SUCCESS) \<and>
               ((\<exists>r\<in>set rs. r \<noteq> CY_RSLT_SUCCESS) \<longrightarrow>
                  status = last (filter (\<lambda>r. r \<noteq> CY_RSLT_SUCCESS) rs)))"
proof -
  let ?st = "st\<lparr>log := log st @
     [Call_cy_socket_init CY_RSLT_SUCCESS, Call_get_default_ol_list,
      APP_INFO Taking_configuration]\<rparr>"
  let ?run = "connect_ports e (cy_lwip_get_interface e) downloaded 0
                CY_RSLT_SUCCESS CY_RSLT_SUCCESS ?st"
  let ?rs = "map (\<lambda>i. fst (connect_answer e downloaded i))
               (filter (\<lambda>i. is_active e (ports downloaded ! i)) [0..<MAX_TKO e])"
  have run: "tcp_socket_connection_start e st = (Returned (fst ?run), snd ?run)"
    using assms(1-3) by (rule start_connects)
  obtain evs where evs: "log (snd ?run) = log ?st @ evs"
    and calls: "library_calls evs =
       map (\<lambda>i. Call_cy_tcp_create_socket_connection i (fst (connect_answer e downloaded i)))
         (filter (\<lambda>i. is_active e (ports downloaded ! i)) [0..<MAX_TKO e])"
    using connect_ports_log [of e downloaded 0 CY_RSLT_SUCCESS CY_RSLT_SUCCESS ?st] by blast
  have "events_of st (snd ?run) =
          [Call_cy_socket_init CY_RSLT_SUCCESS, Call_get_default_ol_list,
           APP_INFO Taking_configuration] @ evs"
    using evs by (intro events_of_append) simp
  then have "concat (map connect_result (events_of st (snd ?run))) =
               concat (map connect_result (library_calls evs))"
    by (simp add: connect_result_calls)
  also have "\<dots> = ?rs"
    by (simp add: calls comp_def)
  finally have rs: "concat (map connect_result (events_of st (snd ?run))) = ?rs" .
  have status: "fst ?run = fold_status CY_RSLT_SUCCESS ?rs"
    by (rule connect_ports_status)
  have "(fst ?run = CY_RSLT_SUCCESS) = (\<forall>r\<in>set ?rs. r = CY_RSLT_SUCCESS)"
    unfolding status by (rule fold_status_success)
  moreover have "(\<exists>r\<in>set ?rs. r \<noteq> CY_RSLT_SUCCESS) \<longrightarrow>
                 fst ?run = last (filter (\<lambda>r. r \<noteq> CY_RSLT_SUCCESS) ?rs)"
    unfolding status using fold_status_failure [of ?rs CY_RSLT_SUCCESS] by blast
  ultimately show ?thesis
    unfolding Let_def run snd_conv fst_conv rs by blast
qed

lemma example_find:
  "fst (find_my_tko_descriptor example_env TCP_KEEPALIVE_OFFLOAD st) =
     Returned (Some [\<lparr>name = Some ''TKO'', cfg = Some example_cfg\<rparr>, \<lparr>name = None, cfg = None\<rparr>])"
  by (simp add: find_my_tko_descriptor_def example_env_def example_list_def
        TCP_KEEPALIVE_OFFLOAD_def peek_def NUL_def)

lemma example_active:
  "filter (\<lambda>i. is_active example_env (ports example_cfg ! i)) [0..<MAX_TKO example_env] = [0, 2]"
  by (simp add: is_active_iff example_env_def example_cfg_def cstr_def NUL_def upt_rec)

theorem tcp_socket_connection_start_status_witness:
  "cy_socket_init example_env = CY_RSLT_SUCCESS \<and>
   length (ports example_cfg) = MAX_TKO example_env \<and>
   concat (map connect_result
     (events_of example_state (snd (tcp_socket_connection_start example_env example_state)))) = [5, 0] \<and>
   fst (tcp_socket_connection_start example_env example_state) = Returned 5"
proof -
  have init: "cy_socket_init example_env = CY_RSLT_SUCCESS"
    by (simp add: example_env_def CY_RSLT_SUCCESS_def)
  have len: "length (ports example_cfg) = MAX_TKO example_env"
    by (simp add: example_env_def example_cfg_def)
  have a0: "fst (connect_answer example_env example_cfg 0) = 5"
    by (simp add: connect_answer_def example_env_def)
  have a2: "fst (connect_answer example_env example_cfg 2) = 0"
    by (simp add: connect_answer_def example_env_def)
  have cfg: "cfg \<lparr>name = Some ''TKO'', cfg = Some example_cfg\<rparr> = Some example_cfg"
    by simp
  define rs where "rs = concat (map connect_result
    (events_of example_state (snd (tcp_socket_connection_start example_env example_state))))"
  have both: "rs = map (\<lambda>i. fst (connect_answer example_env example_cfg i))
                   (filter (\<lambda>i. is_active example_env (ports example_cfg ! i))
                      [0..<MAX_TKO example_env]) \<and>
      (\<exists>status. fst (tcp_socket_connection_start example_env example_state) = Returned status \<and>
         (status = CY_RSLT_SUCCESS) = (\<forall>r\<in>set rs. r = CY_RSLT_SUCCESS) \<and>
         ((\<exists>r\<in>set rs. r \<noteq> CY_RSLT_SUCCESS) \<longrightarrow>
            status = last (filter (\<lambda>r. r \<noteq> CY_RSLT_SUCCESS) rs)))"
    using tcp_socket_connection_start_status
            [where st = example_state, OF init example_find cfg len]
    unfolding Let_def rs_def .
  then have rs: "rs = [5, 0]"
    by (simp add: example_active a0 a2)
  from both obtain status
    where "fst (tcp_socket_connection_start example_env example_state) = Returned status"
      and "(\<exists>r\<in>set rs. r \<noteq> CY_RSLT_SUCCESS) \<longrightarrow>
             status = last (filter (\<lambda>r. r \<noteq> CY_RSLT_SUCCESS) rs)"
    by blast
  then have "fst (tcp_socket_connection_start example_env example_state) = Returned 5"
    by (simp add: rs CY_RSLT_SUCCESS_def)
  with init len rs show ?thesis by (simp add: rs_def)
qed

text \<open>
  C2. On the same path, with \<open>N\<close> active and \<open>M\<close> inactive bindings among the \<open>MAX_TKO\<close>
  entries of the configuration: the library calls of the run are the initialisation, the
  lookup, and one connect for each active slot, in index order, whatever statuses the
  connects return; so exactly \<open>N\<close> connects are attempted and a failed one does not stop
  the loop. The \<open>M\<close> inactive slots are skipped, and attempts and skips together visit
  the slots \<open>0, \<dots>, MAX_TKO - 1\<close> in order. A binding is active iff both ports are
  non-zero and the remote address is not the null address.
\<close>

theorem tcp_socket_connection_start_attempts:
  assumes "cy_socket_init e = CY_RSLT_SUCCESS"
      and "fst (find_my_tko_descriptor e TCP_KEEPALIVE_OFFLOAD st0) = Returned (Some (d # ds))"
      and "cfg d = Some downloaded"
      and "length (ports downloaded) = MAX_TKO e"
      and "N = length (filter (is_active e) (ports downloaded))"
      and "M = length (filter (\<lambda>port. \<not> is_active e port) (ports downloaded))"
  shows "let evs = events_of st (snd (tcp_socket_connection_start e st));
             active = filter (\<lambda>i. is_active e (ports downloaded ! i)) [0..<MAX_TKO e];
             inactive = filter (\<lambda>i. \<not> is_active e (ports downloaded ! i)) [0..<MAX_TKO e]
         in library_calls evs =
              Call_cy_socket_init CY_RSLT_SUCCESS # Call_get_default_ol_list #
              map (\<lambda>i. Call_cy_tcp_create_socket_connection i (fst (connect_answer e downloaded i)))
                active \<and>
            concat (map attempted evs) = active \<and> length active = N \<and>
            concat (map skipped evs) = inactive \<and> length inactive = M \<and>
            concat (map (\<lambda>ev. attempted ev @ skipped ev) evs) = [0..<MAX_TKO e] \<and>
            N + M = MAX_TKO e \<and>
            (\<forall>port. is_active e port =
               (remote_port port > 0 \<and> local_port port > 0 \<and>
                cstr (remote_ip port) \<noteq> cstr (NULL_IP_ADDRESS e)))"
proof -
  let ?st = "st\<lparr>log := log st @
     [Call_cy_socket_init CY_RSLT_SUCCESS, Call_get_default_ol_list,
      APP_INFO Taking_configuration]\<rparr>"
  let ?run = "connect_ports e (cy_lwip_get_interface e) downloaded 0
                CY_RSLT_SUCCESS CY_RSLT_SUCCESS ?st"
  let ?head = "[Call_cy_socket_init CY_RSLT_SUCCESS, Call_get_default_ol_list,
                APP_INFO Taking_configuration]"
  let ?active = "filter (\<lambda>i. is_active e (ports downloaded ! i)) [0..<MAX_TKO e]"
  let ?inactive = "filter (\<lambda>i. \<not> is_active e (ports downloaded ! i)) [0..<MAX_TKO e]"
  have run: "tcp_socket_connection_start e st = (Returned (fst ?run), snd ?run)"
    using assms(1-3) by (rule start_connects)
  obtain evs where evs: "log (snd ?run) = log ?st @ evs"
    and calls: "library_calls evs =
       map (\<lambda>i. Call_cy_tcp_create_socket_connection i (fst (connect_answer e downloaded i))) ?active"
    and att: "concat (map attempted evs) = ?active"
    and skp: "concat (map skipped evs) = ?inactive"
    and vis: "concat (map (\<lambda>ev. attempted ev @ skipped ev) evs) = [0..<MAX_TKO e]"
    using connect_ports_log [of e downloaded 0 CY_RSLT_SUCCESS CY_RSLT_SUCCESS ?st] by blast
  have events: "events_of st (snd (tcp_socket_connection_start e st)) = ?head @ evs"
    unfolding run snd_conv using evs by (intro events_of_append) simp
  have 1: "library_calls (?head @ evs) =
             Call_cy_socket_init CY_RSLT_SUCCESS # Call_get_default_ol_list #
             map (\<lambda>i. Call_cy_tcp_create_socket_connection i (fst (connect_answer e downloaded i))) ?active"
    using calls by (simp add: library_calls_def)
  have 2: "concat (map attempted (?head @ evs)) = ?active"
    using att by simp
  have 3: "concat (map skipped (?head @ evs)) = ?inactive"
    using skp by simp
  have 4: "concat (map (\<lambda>ev. attempted ev @ skipped ev) (?head @ evs)) = [0..<MAX_TKO e]"
    using vis by simp
  have 5: "length ?active = N"
    using assms(4,5) length_filter_nth_upt [of "is_active e" "ports downloaded"] by simp
  have 6: "length ?inactive = M"
    using assms(4,6) length_filter_nth_upt [of "\<lambda>port. \<not> is_active e port" "ports downloaded"]
    by simp
  have 7: "N + M = MAX_TKO e"
    using assms(4-6) sum_length_filter_compl [of "is_active e" "ports downloaded"] by simp
  have 8: "\<forall>port. is_active e port =
               (remote_port port > 0 \<and> local_port port > 0 \<and>
                cstr (remote_ip port) \<noteq> cstr (NULL_IP_ADDRESS e))"
    by (simp add: is_active_def strcmp_cstr)
  from 1 2 3 4 5 6 7 8 show ?thesis
    unfolding Let_def events by blast
qed

lemma example_inactive:
  "filter (\<lambda>i. \<not> is_active example_env (ports example_cfg ! i)) [0..<MAX_TKO example_env] = [1, 3]"
  by (simp add: is_active_iff example_env_def example_cfg_def cstr_def NUL_def upt_rec)

theorem tcp_socket_connection_start_attempts_witness:
  "cy_socket_init example_env = CY_RSLT_SUCCESS \<and>
   length (ports example_cfg) = MAX_TKO example_env \<and>
   length (filter (is_active example_env) (ports example_cfg)) = 2 \<and>
   length (filter (\<lambda>port. \<not> is_active example_env port) (ports example_cfg)) = 2 \<and>
   library_calls (events_of example_state (snd (tcp_socket_connection_start example_env example_state))) =
     [Call_cy_socket_init 0, Call_get_default_ol_list,
      Call_cy_tcp_create_socket_connection 0 5, Call_cy_tcp_create_socket_connection 2 0] \<and>
   concat (map skipped
     (events_of example_state (snd (tcp_socket_connection_start example_env example_state)))) = [1, 3]"
proof -
  have init: "cy_socket_init example_env = CY_RSLT_SUCCESS"
    by (simp add: example_env_def CY_RSLT_SUCCESS_def)
  have cfg: "cfg \<lparr>name = Some ''TKO'', cfg = Some example_cfg\<rparr> = Some example_cfg"
    by simp
  have len: "length (ports example_cfg) = MAX_TKO example_env"
    by (simp add: example_env_def example_cfg_def)
  have N: "2 = length (filter (is_active example_env) (ports example_cfg))"
    by (simp add: is_active_iff example_env_def example_cfg_def cstr_def NUL_def)
  have M: "2 = length (filter (\<lambda>port. \<not> is_active example_env port) (ports example_cfg))"
    by (simp add: is_active_iff example_env_def example_cfg_def cstr_def NUL_def)
  have a0: "fst (connect_answer example_env example_cfg 0) = 5"
    by (simp add: connect_answer_def example_env_def)
  have a2: "fst (connect_answer example_env example_cfg 2) = 0"
    by (simp add: connect_answer_def example_env_def)
  from tcp_socket_connection_start_attempts
         [where st = example_state, OF init example_find cfg len N M]
  have "library_calls (events_of example_state (snd (tcp_socket_connection_start example_env example_state))) =
          [Call_cy_socket_init 0, Call_get_default_ol_list,
           Call_cy_tcp_create_socket_connection 0 5, Call_cy_tcp_create_socket_connection 2 0] \<and>
        concat (map skipped
          (events_of example_state (snd (tcp_socket_connection_start example_env example_state)))) = [1, 3]"
    unfolding Let_def example_active example_inactive
    by (simp add: a0 a2 CY_RSLT_SUCCESS_def)
  with init len N M show ?thesis by simp
qed

text \<open>
  C3. For a descriptor array that holds the entries \<open>pre\<close>, all with a name, then the
  sentinel \<open>s\<close> with the null name, then anything (\<open>rest\<close>, possibly nothing): the lookup
  returns, without a read outside the array, a pointer to the first entry of \<open>pre\<close> whose
  name starts with the search name; it returns \<open>NULL\<close> when \<open>pre\<close> has no such entry - in
  particular when \<open>pre\<close> is empty - and never a pointer to the sentinel or beyond it. The
  comparison is \<open>strncmp\<close> over the length of the search name, which is zero exactly when
  the search name is a prefix of the stored name, so a search name that is a proper
  prefix of a longer stored name matches too.
\<close>

theorem find_my_tko_descriptor_first_match:
  assumes "get_default_ol_list e = Some (pre @ s # rest)"
      and "\<forall>d\<in>set pre. name d \<noteq> None"
      and "name s = None"
  shows "fst (find_my_tko_descriptor e nm st) =
           Returned (case dropWhile (\<lambda>d. \<not> prefix (cstr nm) (cstr (the (name d)))) pre of
                       [] \<Rightarrow> None
                     | d # ds \<Rightarrow> Some (d # ds @ s # rest)) \<and>
         (\<forall>stored. (strncmp stored nm (strlen nm) = 0) = prefix (cstr nm) (cstr stored)) \<and>
         (\<forall>stored. strict_prefix (cstr nm) (cstr stored) \<longrightarrow> strncmp stored nm (strlen nm) = 0)"
proof -
  define found where "found = dropWhile (\<lambda>d. \<not> prefix (cstr nm) (cstr (the (name d)))) pre"
  have scan: "scan_offloads (get_default_ol_list e) nm = Returned (Some (found @ s # rest))"
    unfolding found_def using assms by (simp add: scan_offloads_sentinel)
  have "fst (find_my_tko_descriptor e nm st) =
          Returned (case found of [] \<Rightarrow> None | d # ds \<Rightarrow> Some (d # ds @ s # rest))"
  proof (cases found)
    case Nil
    with scan assms(3) show ?thesis
      by (simp add: find_my_tko_descriptor_def)
  next
    case (Cons d ds)
    then have "d \<in> set (dropWhile (\<lambda>d. \<not> prefix (cstr nm) (cstr (the (name d)))) pre)"
      unfolding found_def by simp
    then have "d \<in> set pre"
      by (rule set_dropWhileD)
    with assms(2) have "name d \<noteq> None" by blast
    with scan Cons show ?thesis
      by (auto simp: find_my_tko_descriptor_def Let_def)
  qed
  then show ?thesis
    by (simp add: found_def strncmp_prefix strict_prefix_def)
qed

theorem find_my_tko_descriptor_first_match_witness:
  "fst (find_my_tko_descriptor
          (example_env\<lparr>get_default_ol_list :=
             Some ([\<lparr>name = Some ''Pkt_Filter'', cfg = None\<rparr>,
                    \<lparr>name = Some ''TKO_v2'', cfg = None\<rparr>,
                    \<lparr>name = Some ''TKO'', cfg = Some example_cfg\<rparr>]
                   @ \<lparr>name = None, cfg = None\<rparr> # [])\<rparr>)
          ''TKO'' example_state) =
     Returned (Some [\<lparr>name = Some ''TKO_v2'', cfg = None\<rparr>,
                     \<lparr>name = Some ''TKO'', cfg = Some example_cfg\<rparr>,
                     \<lparr>name = None, cfg = None\<rparr>]) \<and>
   fst (find_my_tko_descriptor
          (example_env\<lparr>get_default_ol_list :=
             Some ([\<lparr>name = Some ''Pkt_Filter'', cfg = None\<rparr>,
                    \<lparr>name = Some ''TKO_v2'', cfg = None\<rparr>,
                    \<lparr>name = Some ''TKO'', cfg = Some example_cfg\<rparr>]
                   @ \<lparr>name = None, cfg = None\<rparr> # [])\<rparr>)
          ''ARP'' example_state) = Returned None \<and>
   strncmp ''TKO_v2'' ''TKO'' (strlen ''TKO'') = 0"
proof -
  let ?pre = "[\<lparr>name = Some ''Pkt_Filter'', cfg = None\<rparr>,
               \<lparr>name = Some ''TKO_v2'', cfg = None\<rparr>,
               \<lparr>name = Some ''TKO'', cfg = Some example_cfg\<rparr>]"
  let ?s = "\<lparr>name = None, cfg = None\<rparr>"
  let ?e = "example_env\<lparr>get_default_ol_list := Some (?pre @ ?s # [])\<rparr>"
  have list: "get_default_ol_list ?e = Some (?pre @ ?s # [])"
    by simp
  have named: "\<forall>d\<in>set ?pre. name d \<noteq> None"
    by simp
  have sentinel: "name ?s = None"
    by simp
  have "cstr ''TKO'' = ''TKO''" and "cstr ''ARP'' = ''ARP''" and "cstr ''TKO_v2'' = ''TKO_v2''"
    and "cstr ''Pkt_Filter'' = ''Pkt_Filter''"
    by (simp_all add: cstr_def NUL_def)
  with find_my_tko_descriptor_first_match [OF list named sentinel, of "''TKO''" example_state]
       find_my_tko_descriptor_first_match [OF list named sentinel, of "''ARP''" example_state]
  show ?thesis
    by (simp add: strict_prefix_def)
qed

text \<open>
  C9. A second lookup, made in the state the first one has left, returns what the first
  one returned; and the first lookup leaves every global as it was: the state after it
  differs from the state before it in the log only.
\<close>

theorem find_my_tko_descriptor_idempotent:
  "fst (find_my_tko_descriptor e nm (snd (find_my_tko_descriptor e nm st))) =
     fst (find_my_tko_descriptor e nm st) \<and>
   snd (find_my_tko_descriptor e nm st) = st\<lparr>log := log (snd (find_my_tko_descriptor e nm st))\<rparr>"
proof
  show "fst (find_my_tko_descriptor e nm (snd (find_my_tko_descriptor e nm st))) =
          fst (find_my_tko_descriptor e nm st)"
    by (rule find_fst_indep)
  show "snd (find_my_tko_descriptor e nm st) =
          st\<lparr>log := log (snd (find_my_tko_descriptor e nm st))\<rparr>"
    by (simp add: find_snd emit_def)
qed

theorem find_my_tko_descriptor_idempotent_witness:
  "fst (find_my_tko_descriptor example_env ''TKO''
          (snd (find_my_tko_descriptor example_env ''TKO'' example_state))) =
     Returned (Some [\<lparr>name = Some ''TKO'', cfg = Some example_cfg\<rparr>, \<lparr>name = None, cfg = None\<rparr>]) \<and>
   global_socket (snd (find_my_tko_descriptor example_env ''TKO'' example_state)) =
     [None, None, None, None]"
proof -
  have "global_socket (snd (find_my_tko_descriptor example_env ''TKO'' example_state)) =
          global_socket example_state"
    using find_my_tko_descriptor_idempotent [of example_env "''TKO''" example_state]
    by (metis (no_types, lifting) app_state.select_convs(3) app_state.surjective app_state.update_convs(4))
  moreover have "fst (find_my_tko_descriptor example_env ''TKO''
          (snd (find_my_tko_descriptor example_env ''TKO'' example_state))) =
     Returned (Some [\<lparr>name = Some ''TKO'', cfg = Some example_cfg\<rparr>, \<lparr>name = None, cfg = None\<rparr>])"
    using find_my_tko_descriptor_idempotent [of example_env "''TKO''" example_state]
          example_find [of example_state]
    by (simp add: TCP_KEEPALIVE_OFFLOAD_def)
  ultimately show ?thesis by (simp add: example_state_def)
qed

text \<open>
  C4. When the socket library initialises and the lookup of "TKO" returns \<open>NULL\<close>, or
  returns a descriptor whose \<open>cfg\<close> is \<open>NULL\<close>, \<open>tcp_socket_connection_start\<close> returns
  \<open>CY_RSLT_TYPE_ERROR\<close>, which is not the success code; it calls the initialisation and
  the lookup and nothing else, so no connect is attempted, and \<open>global_socket\<close> is as it
  was before the call.
\<close>

theorem tcp_socket_connection_start_config_missing:
  assumes "cy_socket_init e = CY_RSLT_SUCCESS"
      and "fst (find_my_tko_descriptor e TCP_KEEPALIVE_OFFLOAD st0) = Returned None \<or>
           (\<exists>d ds. fst (find_my_tko_descriptor e TCP_KEEPALIVE_OFFLOAD st0) = Returned (Some (d # ds)) \<and>
                    cfg d = None)"
  shows "fst (tcp_socket_connection_start e st) = Returned CY_RSLT_TYPE_ERROR \<and>
         CY_RSLT_TYPE_ERROR \<noteq> CY_RSLT_SUCCESS \<and>
         global_socket (snd (tcp_socket_connection_start e st)) = global_socket st \<and>
         library_calls (events_of st (snd (tcp_socket_connection_start e st))) =
           [Call_cy_socket_init CY_RSLT_SUCCESS, Call_get_default_ol_list] \<and>
         concat (map attempted (events_of st (snd (tcp_socket_connection_start e st)))) = []"
  using assms(2)
proof
  assume "fst (find_my_tko_descriptor e TCP_KEEPALIVE_OFFLOAD st0) = Returned None"
  with assms(1) have "tcp_socket_connection_start e st =
           (Returned CY_RSLT_TYPE_ERROR,
            st\<lparr>log := log st @
              [Call_cy_socket_init CY_RSLT_SUCCESS, Call_get_default_ol_list,
               ERR_INFO (Unable_to_find TCP_KEEPALIVE_OFFLOAD),
               ERR_INFO Offload_configuration_not_found]\<rparr>)"
    by (rule start_not_found)
  then show ?thesis
    by (simp add: events_of_def library_calls_def CY_RSLT_TYPE_ERROR_def CY_RSLT_SUCCESS_def)
next
  assume "\<exists>d ds. fst (find_my_tko_descriptor e TCP_KEEPALIVE_OFFLOAD st0) = Returned (Some (d # ds)) \<and>
                  cfg d = None"
  then obtain d ds
    where "fst (find_my_tko_descriptor e TCP_KEEPALIVE_OFFLOAD st0) = Returned (Some (d # ds))"
      and "cfg d = None"
    by blast
  with assms(1) have "tcp_socket_connection_start e st =
           (Returned CY_RSLT_TYPE_ERROR,
            st\<lparr>log := log st @
              [Call_cy_socket_init CY_RSLT_SUCCESS, Call_get_default_ol_list,
               ERR_INFO Offload_descriptor_not_found]\<rparr>)"
    by (rule start_no_cfg)
  then show ?thesis
    by (simp add: events_of_def library_calls_def CY_RSLT_TYPE_ERROR_def CY_RSLT_SUCCESS_def)
qed

theorem tcp_socket_connection_start_config_missing_witness:
  "fst (tcp_socket_connection_start
          (example_env\<lparr>get_default_ol_list :=
             Some [\<lparr>name = Some ''Pkt_Filter'', cfg = None\<rparr>, \<lparr>name = None, cfg = None\<rparr>]\<rparr>)
          example_state) = Returned 2 \<and>
   global_socket (snd (tcp_socket_connection_start
          (example_env\<lparr>get_default_ol_list :=
             Some [\<lparr>name = Some ''Pkt_Filter'', cfg = None\<rparr>, \<lparr>name = None, cfg = None\<rparr>]\<rparr>)
          example_state)) = [None, None, None, None] \<and>
   fst (tcp_socket_connection_start
          (example_env\<lparr>get_default_ol_list :=
             Some [\<lparr>name = Some ''TKO'', cfg = None\<rparr>, \<lparr>name = None, cfg = None\<rparr>]\<rparr>)
          example_state) = Returned 2 \<and>
   global_socket (snd (tcp_socket_connection_start
          (example_env\<lparr>get_default_ol_list :=
             Some [\<lparr>name = Some ''TKO'', cfg = None\<rparr>, \<lparr>name = None, cfg = None\<rparr>]\<rparr>)
          example_state)) = [None, None, None, None]"
proof -
  let ?e1 = "example_env\<lparr>get_default_ol_list :=
               Some [\<lparr>name = Some ''Pkt_Filter'', cfg = None\<rparr>, \<lparr>name = None, cfg = None\<rparr>]\<rparr>"
  let ?e2 = "example_env\<lparr>get_default_ol_list :=
               Some [\<lparr>name = Some ''TKO'', cfg = None\<rparr>, \<lparr>name = None, cfg = None\<rparr>]\<rparr>"
  have init1: "cy_socket_init ?e1 = CY_RSLT_SUCCESS" and init2: "cy_socket_init ?e2 = CY_RSLT_SUCCESS"
    by (simp_all add: example_env_def CY_RSLT_SUCCESS_def)
  have "fst (find_my_tko_descriptor ?e1 TCP_KEEPALIVE_OFFLOAD example_state) = Returned None"
    by (simp add: find_my_tko_descriptor_def TCP_KEEPALIVE_OFFLOAD_def peek_def NUL_def)
  then have missing: "fst (find_my_tko_descriptor ?e1 TCP_KEEPALIVE_OFFLOAD example_state) = Returned None \<or>
      (\<exists>d ds. fst (find_my_tko_descriptor ?e1 TCP_KEEPALIVE_OFFLOAD example_state) = Returned (Some (d # ds)) \<and>
               cfg d = None)"
    by (rule disjI1)
  have "fst (find_my_tko_descriptor ?e2 TCP_KEEPALIVE_OFFLOAD example_state) =
          Returned (Some [\<lparr>name = Some ''TKO'', cfg = None\<rparr>, \<lparr>name = None, cfg = None\<rparr>])"
    by (simp add: find_my_tko_descriptor_def TCP_KEEPALIVE_OFFLOAD_def peek_def NUL_def)
  then have absent: "fst (find_my_tko_descriptor ?e2 TCP_KEEPALIVE_OFFLOAD example_state) = Returned None \<or>
      (\<exists>d ds. fst (find_my_tko_descriptor ?e2 TCP_KEEPALIVE_OFFLOAD example_state) = Returned (Some (d # ds)) \<and>
               cfg d = None)"
    by simp
  from tcp_socket_connection_start_config_missing [OF init1 missing, of example_state]
       tcp_socket_connection_start_config_missing [OF init2 absent, of example_state]
  show ?thesis
    by (simp add: CY_RSLT_TYPE_ERROR_def example_state_def)
qed

text \<open>
  C7. When \<open>cy_socket_init\<close> does not return success, \<open>tcp_socket_connection_start\<close> stops
  at the assertion with that status. The initialisation is its only library call: it is
  not called again, no descriptor is looked up and no connect is attempted. The globals
  are as they were.
\<close>

theorem tcp_socket_connection_start_init_failure:
  assumes "cy_socket_init e \<noteq> CY_RSLT_SUCCESS"
  shows "fst (tcp_socket_connection_start e st) = Halted (cy_socket_init e) \<and>
         library_calls (events_of st (snd (tcp_socket_connection_start e st))) =
           [Call_cy_socket_init (cy_socket_init e)] \<and>
         events_of st (snd (tcp_socket_connection_start e st)) =
           [Call_cy_socket_init (cy_socket_init e),
            ERR_INFO (Socket_initialization_failed (cy_socket_init e))] \<and>
         global_socket (snd (tcp_socket_connection_start e st)) = global_socket st"
  by (simp add: start_init_failure [OF assms] emit_def events_of_def library_calls_def)

theorem tcp_socket_connection_start_init_failure_witness:
  "cy_socket_init (example_env\<lparr>cy_socket_init := 9\<rparr>) \<noteq> CY_RSLT_SUCCESS \<and>
   fst (tcp_socket_connection_start (example_env\<lparr>cy_socket_init := 9\<rparr>) example_state) = Halted 9 \<and>
   library_calls (events_of example_state
     (snd (tcp_socket_connection_start (example_env\<lparr>cy_socket_init := 9\<rparr>) example_state))) =
     [Call_cy_socket_init 9]"
proof -
  have failed: "cy_socket_init (example_env\<lparr>cy_socket_init := 9\<rparr>) \<noteq> CY_RSLT_SUCCESS"
    by (simp add: CY_RSLT_SUCCESS_def)
  from tcp_socket_connection_start_init_failure [OF failed, of example_state] failed
  show ?thesis by (simp add: library_calls_def)
qed

text \<open>
  C8. When \<open>cy_wcm_init\<close> does not return success, \<open>wifi_connect\<close> returns that status; the
  initialisation is its only library call, so \<open>cy_wcm_connect_ap\<close> is not called.
\<close>

theorem wifi_connect_init_failure:
  assumes "cy_wcm_init e \<noteq> CY_RSLT_SUCCESS"
  shows "fst (wifi_connect e st) = cy_wcm_init e \<and>
         events_of st (snd (wifi_connect e st)) = [Call_cy_wcm_init (cy_wcm_init e)] \<and>
         library_calls (events_of st (snd (wifi_connect e st))) = [Call_cy_wcm_init (cy_wcm_init e)]"
  using assms by (auto simp: wifi_connect_def Let_def emit_def events_of_def library_calls_def)

theorem wifi_connect_init_failure_witness:
  "cy_wcm_init (example_env\<lparr>cy_wcm_init := 6\<rparr>) \<noteq> CY_RSLT_SUCCESS \<and>
   fst (wifi_connect (example_env\<lparr>cy_wcm_init := 6\<rparr>) example_state) = 6 \<and>
   library_calls (events_of example_state
     (snd (wifi_connect (example_env\<lparr>cy_wcm_init := 6\<rparr>) example_state))) = [Call_cy_wcm_init 6]"
proof -
  have failed: "cy_wcm_init (example_env\<lparr>cy_wcm_init := 6\<rparr>) \<noteq> CY_RSLT_SUCCESS"
    by (simp add: CY_RSLT_SUCCESS_def)
  from wifi_connect_init_failure [OF failed, of example_state] failed
  show ?thesis by (simp add: library_calls_def)
qed

text \<open>
  C10. When \<open>MAX_WIFI_RETRY_COUNT\<close> is zero, \<open>wifi_connect\<close> returns the status of
  \<open>cy_wcm_init\<close>, and the initialisation is its only library call: \<open>cy_wcm_connect_ap\<close> is
  not called. So it returns success after a successful initialisation, with no
  association attempted.
\<close>

theorem wifi_connect_zero_retry_bound:
  assumes "MAX_WIFI_RETRY_COUNT e = 0"
  shows "fst (wifi_connect e st) = cy_wcm_init e \<and>
         library_calls (events_of st (snd (wifi_connect e st))) = [Call_cy_wcm_init (cy_wcm_init e)] \<and>
         (cy_wcm_init e = CY_RSLT_SUCCESS \<longrightarrow> fst (wifi_connect e st) = CY_RSLT_SUCCESS)"
  using assms
  by (auto simp: wifi_connect_def Let_def emit_def events_of_def library_calls_def wifi_retry_stop)

theorem wifi_connect_zero_retry_bound_witness:
  "MAX_WIFI_RETRY_COUNT (example_env\<lparr>MAX_WIFI_RETRY_COUNT := 0\<rparr>) = 0 \<and>
   cy_wcm_init (example_env\<lparr>MAX_WIFI_RETRY_COUNT := 0\<rparr>) = CY_RSLT_SUCCESS \<and>
   fst (wifi_connect (example_env\<lparr>MAX_WIFI_RETRY_COUNT := 0\<rparr>) example_state) = CY_RSLT_SUCCESS \<and>
   library_calls (events_of example_state
     (snd (wifi_connect (example_env\<lparr>MAX_WIFI_RETRY_COUNT := 0\<rparr>) example_state))) =
     [Call_cy_wcm_init 0]"
proof -
  have zero: "MAX_WIFI_RETRY_COUNT (example_env\<lparr>MAX_WIFI_RETRY_COUNT := 0\<rparr>) = 0"
    by simp
  have init: "cy_wcm_init (example_env\<lparr>MAX_WIFI_RETRY_COUNT := 0\<rparr>) = CY_RSLT_SUCCESS"
    by (simp add: example_env_def CY_RSLT_SUCCESS_def)
  from wifi_connect_zero_retry_bound [OF zero, of example_state] zero init
  show ?thesis by (simp add: CY_RSLT_SUCCESS_def)
qed

text \<open>
  C5. After a successful \<open>cy_wcm_init\<close>: if the first \<open>K - 1\<close> association attempts fail
  and attempt \<open>K\<close> succeeds, with \<open>1 \<le> K \<le> MAX_WIFI_RETRY_COUNT\<close>, then \<open>wifi_connect\<close>
  returns success, its library calls are the initialisation followed by exactly these
  \<open>K\<close> attempts with nothing between them, and \<open>ip_addr\<close> holds the address of attempt
  \<open>K\<close>. If all \<open>MAX_WIFI_RETRY_COUNT\<close> attempts fail, its library calls are the
  initialisation followed by exactly \<open>MAX_WIFI_RETRY_COUNT\<close> attempts, and (the bound not
  being zero) it returns the status of the last one, which is not success.
\<close>

theorem wifi_connect_retry:
  assumes "cy_wcm_init e = CY_RSLT_SUCCESS"
  shows "(1 \<le> K \<and> K \<le> unat (MAX_WIFI_RETRY_COUNT e) \<and>
          (\<forall>j<K - 1. fst (ap_answer e st j) \<noteq> CY_RSLT_SUCCESS) \<and>
          fst (ap_answer e st (K - 1)) = CY_RSLT_SUCCESS \<longrightarrow>
            fst (wifi_connect e st) = CY_RSLT_SUCCESS \<and>
            library_calls (events_of st (snd (wifi_connect e st))) =
              Call_cy_wcm_init CY_RSLT_SUCCESS #
              map (\<lambda>j. Call_cy_wcm_connect_ap (fst (ap_answer e st j))) [0..<K] \<and>
            ip_addr (snd (wifi_connect e st)) = snd (ap_answer e st (K - 1))) \<and>
         ((\<forall>j<unat (MAX_WIFI_RETRY_COUNT e). fst (ap_answer e st j) \<noteq> CY_RSLT_SUCCESS) \<longrightarrow>
            library_calls (events_of st (snd (wifi_connect e st))) =
              Call_cy_wcm_init CY_RSLT_SUCCESS #
              map (\<lambda>j. Call_cy_wcm_connect_ap (fst (ap_answer e st j)))
                [0..<unat (MAX_WIFI_RETRY_COUNT e)] \<and>
            (0 < unat (MAX_WIFI_RETRY_COUNT e) \<longrightarrow>
               fst (wifi_connect e st) = fst (ap_answer e st (unat (MAX_WIFI_RETRY_COUNT e) - 1)) \<and>
               fst (wifi_connect e st) \<noteq> CY_RSLT_SUCCESS))"
proof -
  let ?head = "[Call_cy_wcm_init CY_RSLT_SUCCESS, APP_INFO Wifi_initialization_successful,
                APP_INFO (Join_to_AP (WIFI_SSID e))]"
  let ?st = "st\<lparr>connect_param := with_credentials e (connect_param st), log := log st @ ?head\<rparr>"
  let ?run = "wifi_retry e 0 CY_RSLT_SUCCESS ?st"
  have run: "wifi_connect e st = ?run"
    using assms by (simp add: wifi_connect_def Let_def emit_def with_credentials_def)
  have cp: "connect_param ?st = with_credentials e (connect_param st)"
    by simp
  have first: "fst ?run = CY_RSLT_SUCCESS \<and>
      library_calls (events_of st (snd ?run)) =
        Call_cy_wcm_init CY_RSLT_SUCCESS #
        map (\<lambda>j. Call_cy_wcm_connect_ap (fst (ap_answer e st j))) [0..<K] \<and>
      ip_addr (snd ?run) = snd (ap_answer e st (K - 1))"
    if K: "1 \<le> K" "K \<le> unat (MAX_WIFI_RETRY_COUNT e)"
      and fails: "\<forall>j<K - 1. fst (ap_answer e st j) \<noteq> CY_RSLT_SUCCESS"
      and succeeds: "fst (ap_answer e st (K - 1)) = CY_RSLT_SUCCESS"
  proof -
    have "unat (0 :: 32 word) + (K - 1) < unat (MAX_WIFI_RETRY_COUNT e)"
      using K by simp
    moreover have "\<forall>j<K - 1. fst (cy_wcm_connect_ap e (unat (0 :: 32 word) + j) (connect_param ?st))
                     \<noteq> CY_RSLT_SUCCESS"
      using fails by (simp add: ap_answer_def)
    moreover have "fst (cy_wcm_connect_ap e (unat (0 :: 32 word) + (K - 1)) (connect_param ?st))
                     = CY_RSLT_SUCCESS"
      using succeeds by (simp add: ap_answer_def)
    ultimately have loop: "fst ?run = CY_RSLT_SUCCESS \<and>
         ip_addr (snd ?run) =
           snd (cy_wcm_connect_ap e (unat (0 :: 32 word) + (K - 1)) (connect_param ?st)) \<and>
         connect_param (snd ?run) = connect_param ?st \<and>
         global_socket (snd ?run) = global_socket ?st \<and>
         (\<exists>evs. log (snd ?run) = log ?st @ evs \<and>
            library_calls evs =
              map (\<lambda>j. Call_cy_wcm_connect_ap
                     (fst (cy_wcm_connect_ap e (unat (0 :: 32 word) + j) (connect_param ?st))))
                [0..<Suc (K - 1)])"
      by (rule wifi_retry_succeeds)
    then obtain evs where evs: "log (snd ?run) = log ?st @ evs"
      and calls: "library_calls evs =
              map (\<lambda>j. Call_cy_wcm_connect_ap
                     (fst (cy_wcm_connect_ap e (unat (0 :: 32 word) + j) (connect_param ?st))))
                [0..<Suc (K - 1)]"
      by blast
    have "events_of st (snd ?run) = ?head @ evs"
      using evs by (intro events_of_append) simp
    then have "library_calls (events_of st (snd ?run)) =
        Call_cy_wcm_init CY_RSLT_SUCCESS #
        map (\<lambda>j. Call_cy_wcm_connect_ap (fst (ap_answer e st j))) [0..<K]"
      using calls K(1) by (simp add: library_calls_def ap_answer_def del: upt_Suc)
    with loop show ?thesis
      by (simp add: ap_answer_def)
  qed
  have second: "library_calls (events_of st (snd ?run)) =
        Call_cy_wcm_init CY_RSLT_SUCCESS #
        map (\<lambda>j. Call_cy_wcm_connect_ap (fst (ap_answer e st j)))
          [0..<unat (MAX_WIFI_RETRY_COUNT e)] \<and>
      (0 < unat (MAX_WIFI_RETRY_COUNT e) \<longrightarrow>
         fst ?run = fst (ap_answer e st (unat (MAX_WIFI_RETRY_COUNT e) - 1)) \<and>
         fst ?run \<noteq> CY_RSLT_SUCCESS)"
    if fails: "\<forall>j<unat (MAX_WIFI_RETRY_COUNT e). fst (ap_answer e st j) \<noteq> CY_RSLT_SUCCESS"
  proof -
    let ?n = "unat (MAX_WIFI_RETRY_COUNT e)"
    have "unat (0 :: 32 word) + ?n = unat (MAX_WIFI_RETRY_COUNT e)"
      by simp
    moreover have "\<forall>j<?n. fst (cy_wcm_connect_ap e (unat (0 :: 32 word) + j) (connect_param ?st))
                     \<noteq> CY_RSLT_SUCCESS"
      using fails by (simp add: ap_answer_def)
    ultimately have loop: "fst ?run =
           (if ?n = 0 then CY_RSLT_SUCCESS
            else fst (cy_wcm_connect_ap e (unat (0 :: 32 word) + ?n - 1) (connect_param ?st))) \<and>
         connect_param (snd ?run) = connect_param ?st \<and>
         global_socket (snd ?run) = global_socket ?st \<and>
         (\<exists>evs. log (snd ?run) = log ?st @ evs \<and>
            library_calls evs =
              map (\<lambda>j. Call_cy_wcm_connect_ap
                     (fst (cy_wcm_connect_ap e (unat (0 :: 32 word) + j) (connect_param ?st))))
                [0..<?n])"
      by (rule wifi_retry_exhausts)
    then obtain evs where evs: "log (snd ?run) = log ?st @ evs"
      and calls: "library_calls evs =
              map (\<lambda>j. Call_cy_wcm_connect_ap
                     (fst (cy_wcm_connect_ap e (unat (0 :: 32 word) + j) (connect_param ?st))))
                [0..<?n]"
      by blast
    have "events_of st (snd ?run) = ?head @ evs"
      using evs by (intro events_of_append) simp
    then have "library_calls (events_of st (snd ?run)) =
        Call_cy_wcm_init CY_RSLT_SUCCESS #
        map (\<lambda>j. Call_cy_wcm_connect_ap (fst (ap_answer e st j))) [0..<?n]"
      using calls by (simp add: library_calls_def ap_answer_def)
    moreover have "fst ?run = fst (ap_answer e st (?n - 1)) \<and> fst ?run \<noteq> CY_RSLT_SUCCESS"
      if "0 < ?n"
    proof -
      from that loop have "fst ?run = fst (ap_answer e st (?n - 1))"
        by (simp add: ap_answer_def)
      moreover from that fails have "fst (ap_answer e st (?n - 1)) \<noteq> CY_RSLT_SUCCESS"
        by simp
      ultimately show ?thesis by simp
    qed
    ultimately show ?thesis by blast
  qed
  from first second show ?thesis
    unfolding run by blast
qed

theorem wifi_connect_retry_witness:
  "cy_wcm_init example_env = CY_RSLT_SUCCESS \<and>
   (3 :: nat) \<le> unat (MAX_WIFI_RETRY_COUNT example_env) \<and>
   fst (ap_answer example_env example_state 0) \<noteq> CY_RSLT_SUCCESS \<and>
   fst (ap_answer example_env example_state 1) \<noteq> CY_RSLT_SUCCESS \<and>
   fst (ap_answer example_env example_state 2) = CY_RSLT_SUCCESS \<and>
   fst (wifi_connect example_env example_state) = CY_RSLT_SUCCESS \<and>
   library_calls (events_of example_state (snd (wifi_connect example_env example_state))) =
     [Call_cy_wcm_init 0, Call_cy_wcm_connect_ap 7, Call_cy_wcm_connect_ap 7, Call_cy_wcm_connect_ap 0] \<and>
   ip_addr (snd (wifi_connect example_env example_state)) = example_address \<and>
   library_calls (events_of example_state
     (snd (wifi_connect (example_env\<lparr>cy_wcm_connect_ap := \<lambda>k cp. (8, no_address)\<rparr>) example_state))) =
     [Call_cy_wcm_init 0, Call_cy_wcm_connect_ap 8, Call_cy_wcm_connect_ap 8, Call_cy_wcm_connect_ap 8] \<and>
   fst (wifi_connect (example_env\<lparr>cy_wcm_connect_ap := \<lambda>k cp. (8, no_address)\<rparr>) example_state) = 8"
proof -
  let ?e = "example_env\<lparr>cy_wcm_connect_ap := \<lambda>k cp. (8, no_address)\<rparr>"
  have init: "cy_wcm_init example_env = CY_RSLT_SUCCESS" and init': "cy_wcm_init ?e = CY_RSLT_SUCCESS"
    by (simp_all add: example_env_def CY_RSLT_SUCCESS_def)
  have bound: "unat (MAX_WIFI_RETRY_COUNT example_env) = 3" and bound': "unat (MAX_WIFI_RETRY_COUNT ?e) = 3"
    by (simp_all add: example_env_def)
  have answer: "ap_answer example_env example_state k =
                  (if k < 2 then (7, no_address) else (0, example_address))" for k
    by (simp add: ap_answer_def example_env_def)
  have answer': "ap_answer ?e example_state k = (8, no_address)" for k
    by (simp add: ap_answer_def)
  have upt3: "[0..<3] = [0, 1, 2]"
    by (simp add: upt_rec)
  have third: "1 \<le> (3 :: nat) \<and> 3 \<le> unat (MAX_WIFI_RETRY_COUNT example_env) \<and>
      (\<forall>j<3 - 1. fst (ap_answer example_env example_state j) \<noteq> CY_RSLT_SUCCESS) \<and>
      fst (ap_answer example_env example_state (3 - 1)) = CY_RSLT_SUCCESS"
    by (simp add: bound answer CY_RSLT_SUCCESS_def)
  have never: "\<forall>j<unat (MAX_WIFI_RETRY_COUNT ?e). fst (ap_answer ?e example_state j) \<noteq> CY_RSLT_SUCCESS"
    by (simp add: answer' CY_RSLT_SUCCESS_def)
  have "fst (wifi_connect example_env example_state) = CY_RSLT_SUCCESS \<and>
        library_calls (events_of example_state (snd (wifi_connect example_env example_state))) =
          Call_cy_wcm_init CY_RSLT_SUCCESS #
          map (\<lambda>j. Call_cy_wcm_connect_ap (fst (ap_answer example_env example_state j))) [0..<3] \<and>
        ip_addr (snd (wifi_connect example_env example_state)) =
          snd (ap_answer example_env example_state (3 - 1))"
    using wifi_connect_retry [OF init, of 3 example_state, THEN conjunct1] third by (rule mp)
  then have 1: "fst (wifi_connect example_env example_state) = CY_RSLT_SUCCESS \<and>
        library_calls (events_of example_state (snd (wifi_connect example_env example_state))) =
          [Call_cy_wcm_init 0, Call_cy_wcm_connect_ap 7, Call_cy_wcm_connect_ap 7, Call_cy_wcm_connect_ap 0] \<and>
        ip_addr (snd (wifi_connect example_env example_state)) = example_address"
    by (simp add: upt3 answer CY_RSLT_SUCCESS_def)
  have "library_calls (events_of example_state (snd (wifi_connect ?e example_state))) =
          Call_cy_wcm_init CY_RSLT_SUCCESS #
          map (\<lambda>j. Call_cy_wcm_connect_ap (fst (ap_answer ?e example_state j)))
            [0..<unat (MAX_WIFI_RETRY_COUNT ?e)] \<and>
        (0 < unat (MAX_WIFI_RETRY_COUNT ?e) \<longrightarrow>
           fst (wifi_connect ?e example_state) =
             fst (ap_answer ?e example_state (unat (MAX_WIFI_RETRY_COUNT ?e) - 1)) \<and>
           fst (wifi_connect ?e example_state) \<noteq> CY_RSLT_SUCCESS)"
    using wifi_connect_retry [OF init', of 3 example_state, THEN conjunct2] never by (rule mp)
  then have 2: "library_calls (events_of example_state (snd (wifi_connect ?e example_state))) =
          [Call_cy_wcm_init 0, Call_cy_wcm_connect_ap 8, Call_cy_wcm_connect_ap 8, Call_cy_wcm_connect_ap 8] \<and>
        fst (wifi_connect ?e example_state) = 8"
    by (simp add: bound upt3 answer' CY_RSLT_SUCCESS_def)
  from 1 2 init show ?thesis
    by (simp add: bound answer CY_RSLT_SUCCESS_def)
qed

text \<open>
  C6. \<open>network_idle_task\<close> does not return: whatever number of passes through the loop
  it is given, it is still running after them and has not returned. What it has done by
  then is exactly that number of passes, each one the suspend call followed by the
  delay, so that every suspend call but the first comes right after a delay: the suspend
  call gets the station interface, \<open>portMAX_DELAY\<close> and the two inactivity macros as they
  are, the delay gets the ticks of \<open>NETWORK_SUSPEND_DELAY_MS\<close>. The globals other than the
  log are untouched.
\<close>

theorem network_idle_task_never_returns:
  "network_idle_task e fuel st =
     Still_running (st\<lparr>log := log st @ concat (replicate fuel
       [Call_wait_net_suspend (cy_lwip_get_interface e) (portMAX_DELAY e)
          (NETWORK_INACTIVE_INTERVAL_MS e) (NETWORK_INACTIVE_WINDOW_MS e),
        Call_vTaskDelay (pdMS_TO_TICKS e (NETWORK_SUSPEND_DELAY_MS e))])\<rparr>) \<and>
   (\<forall>st'. network_idle_task e fuel st \<noteq> Task_returned st')"
  by (simp add: network_idle_task_def idle_loop_run)

theorem network_idle_task_never_returns_witness:
  "network_idle_task example_env 2 example_state =
     Still_running (example_state\<lparr>log :=
       [Call_wait_net_suspend (Some 1) 0xFFFFFFFF 300 200, Call_vTaskDelay 100,
        Call_wait_net_suspend (Some 1) 0xFFFFFFFF 300 200, Call_vTaskDelay 100]\<rparr>)"
proof -
  have "concat (replicate 2 [a, b]) = [a, b, a, b]" for a b :: event
    by (simp add: numeral_2_eq_2)
  moreover have "log example_state = []"
    by (simp add: example_state_def)
  ultimately show ?thesis
    using network_idle_task_never_returns [of example_env 2 example_state]
    by (simp add: example_env_def)
qed

end
